theory Spec2Isabelle
  imports Complex_Main "HOL-Library.Sublist" "HOL-Library.AList"
begin

section \<open>JavaScript strings\<close>

text \<open>
  A JavaScript string is modelled as a \<^typ>\<open>string\<close>: a list of 8-bit code units, that is,
  the strings whose UTF-16 code units all lie below 256 (ASCII and Latin-1). On this range
  \<open>String.prototype.toLowerCase\<close> maps \<open>A\<close>..\<open>Z\<close> and the capitals \<open>0xC0\<close>..\<open>0xDE\<close>
  (without the multiplication sign \<open>0xD7\<close>) to the code unit 32 above, and
  \<open>String.prototype.trim\<close> removes TAB, LF, VT, FF, CR, SPACE and NBSP at both ends.
\<close>

definition is_upper :: "char \<Rightarrow> bool" where
  "is_upper c = (let n = (of_char c :: nat) in
     (65 \<le> n \<and> n \<le> 90) \<or> (192 \<le> n \<and> n \<le> 222 \<and> n \<noteq> 215))"

definition lower_char :: "char \<Rightarrow> char" where
  "lower_char c = (if is_upper c then char_of ((of_char c :: nat) + 32) else c)"

definition toLowerCase :: "string \<Rightarrow> string" where
  "toLowerCase s = map lower_char s"

definition is_space :: "char \<Rightarrow> bool" where
  "is_space c = ((of_char c :: nat) \<in> {9, 10, 11, 12, 13, 32, 160})"

definition trim :: "string \<Rightarrow> string" where
  "trim s = rev (dropWhile is_space (rev (dropWhile is_space s)))"

definition startsWith :: "string \<Rightarrow> string \<Rightarrow> bool" where
  "startsWith s p = (take (length p) s = p)"

definition endsWith :: "string \<Rightarrow> string \<Rightarrow> bool" where
  "endsWith s p = (length p \<le> length s \<and> drop (length s - length p) s = p)"

text \<open>\<open>s.includes(t)\<close>: \<open>t\<close> occurs in \<open>s\<close> as a contiguous run.\<close>

fun str_includes :: "string \<Rightarrow> string \<Rightarrow> bool" where
  "str_includes [] t = (t = [])"
| "str_includes (c # s) t = (startsWith (c # s) t \<or> str_includes s t)"

text \<open>\<open>s.substring(a)\<close> and \<open>s.substring(a, b)\<close> for non-negative integer arguments.\<close>

definition substring_from :: "string \<Rightarrow> nat \<Rightarrow> string" where
  "substring_from s a = drop a s"

definition substring :: "string \<Rightarrow> nat \<Rightarrow> nat \<Rightarrow> string" where
  "substring s a b = take (max a b - min a b) (drop (min a b) s)"

text \<open>\<open>s.split(sep)\<close> for a separator of one character; the result is never empty.\<close>

fun split_on :: "char \<Rightarrow> string \<Rightarrow> string list" where
  "split_on sep [] = [[]]"
| "split_on sep (c # s) =
     (if c = sep then [] # split_on sep s
      else (case split_on sep s of [] \<Rightarrow> [[c]] | w # ws \<Rightarrow> (c # w) # ws))"

text \<open>\<open>xs.pop()\<close> as an expression: the last element, \<open>undefined\<close> on the empty array.\<close>

definition pop :: "'a list \<Rightarrow> 'a option" where
  "pop xs = (case rev xs of [] \<Rightarrow> None | x # _ \<Rightarrow> Some x)"

text \<open>
  \<open>s.replace(pat, '')\<close> with a string pattern: the first occurrence of \<open>pat\<close> is removed
  (the replacement text is empty in every use, so no \<open>$\<close> pattern is involved).
\<close>

fun remove_first :: "string \<Rightarrow> string \<Rightarrow> string" where
  "remove_first [] pat = []"
| "remove_first (c # s) pat =
     (if startsWith (c # s) pat then drop (length pat) (c # s) else c # remove_first s pat)"

section \<open>JavaScript values\<close>

text \<open>
  Request bodies, collaborator results and response bodies are dynamically typed. \<open>Num\<close>
  carries the exact value of a finite double; \<open>Native\<close> stands for a built-in member that
  an object literal inherits from \<open>Object.prototype\<close>, named by its property key.
\<close>

datatype jsval =
    Undefined
  | Null
  | Bool bool
  | Num rat
  | Str string
  | Arr "jsval list"
  | Obj "(string \<times> jsval) list"
  | Native string

fun truthy :: "jsval \<Rightarrow> bool" where
  "truthy Undefined = False"
| "truthy Null = False"
| "truthy (Bool b) = b"
| "truthy (Num n) = (n \<noteq> 0)"
| "truthy (Str s) = (s \<noteq> [])"
| "truthy (Arr xs) = True"
| "truthy (Obj ps) = True"
| "truthy (Native n) = True"

text \<open>\<open>a || b\<close>\<close>

definition or_else :: "jsval \<Rightarrow> jsval \<Rightarrow> jsval" where
  "or_else a b = (if truthy a then a else b)"

text \<open>An own property of an object given by its property list; \<open>undefined\<close> when absent.\<close>

definition own :: "(string \<times> jsval) list \<Rightarrow> string \<Rightarrow> jsval" where
  "own ps k = (case map_of ps k of None \<Rightarrow> Undefined | Some v \<Rightarrow> v)"

text \<open>A destructuring default \<open>{ k = d }\<close>: the default applies when the property is \<open>undefined\<close>.\<close>

definition own_default :: "(string \<times> jsval) list \<Rightarrow> string \<Rightarrow> jsval \<Rightarrow> jsval" where
  "own_default ps k d = (case own ps k of Undefined \<Rightarrow> d | v \<Rightarrow> v)"

definition Object_prototype_keys :: "string list" where
  "Object_prototype_keys =
     [''constructor'', ''__defineGetter__'', ''__defineSetter__'', ''hasOwnProperty'',
      ''__lookupGetter__'', ''__lookupSetter__'', ''isPrototypeOf'', ''propertyIsEnumerable'',
      ''toString'', ''valueOf'', ''__proto__'', ''toLocaleString'']"

text \<open>
  \<open>literal[key]\<close> on an object literal with string values: an own property if there is
  one, else the member inherited from \<open>Object.prototype\<close>, else \<open>undefined\<close>.
\<close>

definition index_literal :: "(string \<times> string) list \<Rightarrow> string \<Rightarrow> jsval" where
  "index_literal ps k =
     (case map_of ps k of
        Some v \<Rightarrow> Str v
      | None \<Rightarrow> if k \<in> set Object_prototype_keys then Native k else Undefined)"

section \<open>Numbers\<close>

text \<open>
  A JavaScript number is an IEEE 754 double; \<open>*\<close> and \<open>+\<close> compute the exact product or sum
  and round it to the nearest double, ties to the even significand. Finite doubles are
  modelled by their exact rational value. \<open>double_round\<close> is that rounding for magnitudes
  below \<open>2^1024\<close> (no operand in this module comes near the overflow threshold): a double
  in the binade \<open>[2^k, 2^(k+1))\<close> is a multiple of \<open>2^(k-52)\<close>, and below \<open>2^(-1022)\<close> of
  \<open>2^(-1074)\<close>.
\<close>

definition pow2 :: "int \<Rightarrow> rat" where
  "pow2 e = (if 0 \<le> e then 2 ^ nat e else 1 / 2 ^ nat (- e))"

definition roundTiesToEven :: "rat \<Rightarrow> int" where
  "roundTiesToEven x =
     (let f = \<lfloor>x\<rfloor>; d = x - of_int f
      in if d < 1 / 2 then f else if 1 / 2 < d then f + 1 else if even f then f else f + 1)"

text \<open>The binary exponent \<open>\<lfloor>log\<^sub>2 x\<rfloor>\<close> of a positive rational.\<close>

function ilog2 :: "rat \<Rightarrow> int" where
  "ilog2 x =
     (if x \<le> 0 then 0
      else if x < 1 then ilog2 (2 * x) - 1
      else if x < 2 then 0
      else ilog2 (x / 2) + 1)"
  by pat_completeness auto

termination
proof (relation "measure (\<lambda>x. if x < 1 then nat \<lfloor>1 / x\<rfloor> + 1 else nat \<lfloor>x\<rfloor>)")
  show "wf (measure (\<lambda>x::rat. if x < 1 then nat \<lfloor>1 / x\<rfloor> + 1 else nat \<lfloor>x\<rfloor>))" by simp
next
  fix x :: rat
  assume a: "\<not> x \<le> 0" "x < 1"
  have floor_half_less: "\<lfloor>y / 2\<rfloor> < \<lfloor>y\<rfloor>" if "2 \<le> y" for y :: rat
  proof -
    have "y / 2 \<le> y - 1" using that by simp
    then have "\<lfloor>y / 2\<rfloor> \<le> \<lfloor>y - 1\<rfloor>" by (rule floor_mono)
    also have "\<lfloor>y - 1\<rfloor> = \<lfloor>y\<rfloor> - 1" by simp
    finally show ?thesis by simp
  qed
  show "(2 * x, x) \<in> measure (\<lambda>x. if x < 1 then nat \<lfloor>1 / x\<rfloor> + 1 else nat \<lfloor>x\<rfloor>)"
  proof (cases "2 * x < 1")
    case True
    have eq: "1 / (2 * x) = (1 / x) / 2" by simp
    have "2 \<le> 1 / x" using a True by (simp add: field_simps)
    then have "\<lfloor>(1 / x) / 2\<rfloor> < \<lfloor>1 / x\<rfloor>" by (rule floor_half_less)
    moreover have "0 \<le> \<lfloor>(1 / x) / 2\<rfloor>" using a by simp
    ultimately show ?thesis using a True unfolding in_measure eq by simp
  next
    case False
    have "1 \<le> 2 * x" "2 * x < 2" using a False by simp_all
    then have "\<lfloor>2 * x\<rfloor> = 1" by linarith
    moreover have "1 \<le> 1 / x" using a by (simp add: field_simps)
    then have "1 \<le> \<lfloor>1 / x\<rfloor>" by simp
    ultimately show ?thesis using a False by simp
  qed
next
  fix x :: rat
  assume a: "\<not> x \<le> 0" "\<not> x < 1" "\<not> x < 2"
  have "x / 2 \<le> x - 1" using a by simp
  then have "\<lfloor>x / 2\<rfloor> \<le> \<lfloor>x - 1\<rfloor>" by (rule floor_mono)
  also have "\<lfloor>x - 1\<rfloor> = \<lfloor>x\<rfloor> - 1" by simp
  finally have "\<lfloor>x / 2\<rfloor> < \<lfloor>x\<rfloor>" by simp
  moreover have "0 \<le> \<lfloor>x / 2\<rfloor>" using a by simp
  ultimately show "(x / 2, x) \<in> measure (\<lambda>x. if x < 1 then nat \<lfloor>1 / x\<rfloor> + 1 else nat \<lfloor>x\<rfloor>)"
    using a by simp
qed

declare ilog2.simps [simp del]

definition double_round :: "rat \<Rightarrow> rat" where
  "double_round x =
     (if x = 0 then 0
      else (let e = max (ilog2 \<bar>x\<bar>) (- 1022) - 52
            in pow2 e * of_int (roundTiesToEven (x / pow2 e))))"

definition is_double :: "rat \<Rightarrow> bool" where
  "is_double x = (double_round x = x)"

definition js_mul :: "rat \<Rightarrow> rat \<Rightarrow> rat" where
  "js_mul a b = double_round (a * b)"

definition js_add :: "rat \<Rightarrow> rat \<Rightarrow> rat" where
  "js_add a b = double_round (a + b)"

text \<open>\<open>Math.min\<close> of two numbers (neither is \<open>NaN\<close> here).\<close>

definition Math_min :: "rat \<Rightarrow> rat \<Rightarrow> rat" where
  "Math_min a b = min a b"

text \<open>Decimal digits of a natural number, as \<open>Number.prototype.toString\<close> prints an integer.\<close>

fun digits :: "nat \<Rightarrow> string" where
  "digits n = (if n < 10 then [char_of (48 + n)] else digits (n div 10) @ [char_of (48 + n mod 10)])"

declare digits.simps [simp del]

section \<open>Runtime, errors and collaborators\<close>

text \<open>
  A thrown \<open>Error\<close> carries its message and its stack text. What the module takes from
  the JavaScript runtime and does not define itself is a parameter: \<open>JSON.parse\<close> (an error
  stands for the exception it throws), the text of a non-integer number and of a built-in
  member, the successive results of \<open>Math.random()\<close> within one request, the text of
  \<open>new Date().toISOString()\<close>, and the stack text attached to a \<open>TypeError\<close> the runtime
  raises. \<open>env\<close> is \<open>process.env\<close>, an unset variable being \<open>None\<close>.
\<close>

datatype js_error = JsError (message: string) (stack: string)

record runtime =
  JSON_parse :: "jsval \<Rightarrow> js_error + jsval"
  Number_toString :: "rat \<Rightarrow> string"
  Native_toString :: "string \<Rightarrow> string"
  Math_random :: "nat \<Rightarrow> rat"
  toISOString_now :: string
  stack_trace :: "string \<Rightarrow> string"

record env =
  NODE_ENV :: "string option"
  MCP_SERVER_TOKEN :: "string option"
  JWT_SECRET :: "string option"
  DOCKER_REGISTRY_URL :: "string option"

definition TypeError :: "runtime \<Rightarrow> string \<Rightarrow> js_error" where
  "TypeError rt msg = JsError msg (stack_trace rt msg)"

definition env_value :: "string option \<Rightarrow> jsval" where
  "env_value v = (case v of None \<Rightarrow> Undefined | Some s \<Rightarrow> Str s)"

text \<open>\<open>xs.join(sep)\<close> on texts already converted.\<close>

fun join :: "string \<Rightarrow> string list \<Rightarrow> string" where
  "join sep [] = []"
| "join sep [x] = x"
| "join sep (x # y # ys) = x @ sep @ join sep (y # ys)"

text \<open>
  \<open>ToString\<close>, as a template literal and a computed property key apply it. An integer
  below \<open>2^53\<close> prints as its decimal digits, any other number as the runtime prints it.
  An array converts its elements in order and joins them with commas, \<open>undefined\<close> and
  \<open>null\<close> counting as the empty text. An object is converted by its \<open>toString\<close> method and,
  when that is not callable, by \<open>valueOf\<close>: a property from JSON is never callable, and the
  inherited \<open>valueOf\<close> returns the object itself, so an object with an own \<open>toString\<close>
  property throws and any other object gives \<open>[object Object]\<close>.
\<close>

fun ToString :: "runtime \<Rightarrow> jsval \<Rightarrow> js_error + string"
  and ToString_elements :: "runtime \<Rightarrow> jsval list \<Rightarrow> js_error + string list" where
  "ToString rt Undefined = Inr ''undefined''"
| "ToString rt Null = Inr ''null''"
| "ToString rt (Bool b) = Inr (if b then ''true'' else ''false'')"
| "ToString rt (Num n) =
     Inr (if n = of_int \<lfloor>n\<rfloor> \<and> \<bar>n\<bar> < 2 ^ 53
          then (if n < 0 then ''-'' else []) @ digits (nat \<bar>\<lfloor>n\<rfloor>\<bar>)
          else Number_toString rt n)"
| "ToString rt (Str s) = Inr s"
| "ToString rt (Arr xs) =
     (case ToString_elements rt xs of Inl e \<Rightarrow> Inl e | Inr texts \<Rightarrow> Inr (join '','' texts))"
| "ToString rt (Obj ps) =
     (if map_of ps ''toString'' \<noteq> None
      then Inl (TypeError rt ''Cannot convert object to primitive value'')
      else Inr ''[object Object]'')"
| "ToString rt (Native n) = Inr (Native_toString rt n)"
| "ToString_elements rt [] = Inr []"
| "ToString_elements rt (x # xs) =
     (case (if x = Undefined \<or> x = Null then Inr [] else ToString rt x) of
        Inl e \<Rightarrow> Inl e
      | Inr t \<Rightarrow> (case ToString_elements rt xs of Inl e \<Rightarrow> Inl e | Inr ts \<Rightarrow> Inr (t # ts)))"

text \<open>
  Reading a property by a fixed name (none of the names the handlers read is inherited
  from a prototype, apart from \<open>length\<close> on arrays and strings). Reading from \<open>undefined\<close>
  or \<open>null\<close> throws.
\<close>

definition cannot_read :: "string \<Rightarrow> string \<Rightarrow> string" where
  "cannot_read what k =
     ''Cannot read properties of '' @ what @ '' (reading '' @ [CHR 0x27] @ k @ [CHR 0x27] @ '')''"

definition get :: "runtime \<Rightarrow> jsval \<Rightarrow> string \<Rightarrow> js_error + jsval" where
  "get rt v k =
     (case v of
        Undefined \<Rightarrow> Inl (TypeError rt (cannot_read ''undefined'' k))
      | Null \<Rightarrow> Inl (TypeError rt (cannot_read ''null'' k))
      | Obj ps \<Rightarrow> Inr (own ps k)
      | Arr xs \<Rightarrow> Inr (if k = ''length'' then Num (of_nat (length xs)) else Undefined)
      | Str s \<Rightarrow> Inr (if k = ''length'' then Num (of_nat (length s)) else Undefined)
      | _ \<Rightarrow> Inr Undefined)"

text \<open>
  Calling a string method \<open>name\<close> on the value of the expression \<open>expr\<close>: the receiver's
  text when it is a string; a value from JSON of any other type has no such method.
\<close>

definition str_method :: "runtime \<Rightarrow> string \<Rightarrow> string \<Rightarrow> jsval \<Rightarrow> js_error + string" where
  "str_method rt expr name v =
     (case v of
        Str s \<Rightarrow> Inr s
      | Undefined \<Rightarrow> Inl (TypeError rt (cannot_read ''undefined'' name))
      | Null \<Rightarrow> Inl (TypeError rt (cannot_read ''null'' name))
      | _ \<Rightarrow> Inl (TypeError rt (expr @ ''.'' @ name @ '' is not a function'')))"

definition bindE :: "js_error + 'a \<Rightarrow> ('a \<Rightarrow> js_error + 'b) \<Rightarrow> js_error + 'b" where
  "bindE r f = (case r of Inl e \<Rightarrow> Inl e | Inr a \<Rightarrow> f a)"

text \<open>
  The collaborators (\<open>llmService\<close>, \<open>devopsService\<close>) are outside the module. A call names
  the operation and its arguments; \<open>services\<close> answers a call with the value the promise
  resolves to, or with the error it rejects with. A handler's run yields its result
  together with the calls it awaited, in order.
\<close>

datatype call =
    FetchPRDiff jsval jsval jsval jsval jsval
  | PostReviewComment jsval jsval jsval
  | FetchChangedFiles jsval jsval jsval
  | CreateTestFile jsval jsval jsval
  | GetRecentChanges jsval jsval
  | GetBuildHistory jsval jsval
  | AnalyzeDependencies jsval jsval
  | BuildDockerImage jsval jsval
  | GenerateK8sManifests jsval jsval
  | FetchRepositoryContent jsval jsval
  | AnalyzeCode jsval jsval jsval
  | GenerateResponse jsval jsval
  | GenerateTests jsval jsval jsval
  | PredictBuildOutcome jsval jsval jsval jsval
  | AnalyzeVulnerabilities jsval jsval jsval

type_synonym services = "call \<Rightarrow> js_error + jsval"

type_synonym 'a io = "(js_error + 'a) \<times> call list"

definition ret :: "'a \<Rightarrow> 'a io" where
  "ret a = (Inr a, [])"

definition lift :: "js_error + 'a \<Rightarrow> 'a io" where
  "lift r = (r, [])"

definition await :: "services \<Rightarrow> call \<Rightarrow> jsval io" where
  "await svc c = (svc c, [c])"

definition bnd :: "'a io \<Rightarrow> ('a \<Rightarrow> 'b io) \<Rightarrow> 'b io" where
  "bnd m f =
     (case m of
        (Inl e, cs) \<Rightarrow> (Inl e, cs)
      | (Inr a, cs) \<Rightarrow> (case f a of (r, cs') \<Rightarrow> (r, cs @ cs')))"

datatype response = Response (status_code: nat) (json_body: jsval)

text \<open>\<open>try { ... } catch (error) { ... }\<close> around a handler body.\<close>

definition try_catch :: "response io \<Rightarrow> (js_error \<Rightarrow> response) \<Rightarrow> response \<times> call list" where
  "try_catch m handler = (case m of (Inr res, cs) \<Rightarrow> (res, cs) | (Inl error, cs) \<Rightarrow> (handler error, cs))"

section \<open>Test framework catalogue\<close>

text \<open>
  The two helper functions at the end of the route module. \<open>ext\<close> is used as a property
  key and inside template literals only, so an \<open>undefined\<close> result of \<open>pop\<close> reads as the
  text \<open>undefined\<close>.
\<close>

definition ext_of :: "string \<Rightarrow> string" where
  "ext_of filename = (case pop (split_on CHR ''.'' filename) of None \<Rightarrow> ''undefined'' | Some e \<Rightarrow> e)"

definition frameworks :: "(string \<times> string) list" where
  "frameworks =
     [(''js'', ''jest''), (''ts'', ''jest''), (''py'', ''pytest''), (''java'', ''junit''),
      (''go'', ''testing''), (''rb'', ''rspec''), (''php'', ''phpunit'')]"

definition detectTestFramework :: "jsval \<Rightarrow> string \<Rightarrow> jsval" where
  "detectTestFramework content filename =
     (if str_includes filename ''.test.'' \<or> str_includes filename ''.spec.'' then Str ''existing''
      else or_else (index_literal frameworks (ext_of filename)) (Str ''generic''))"

definition patterns :: "string \<Rightarrow> string \<Rightarrow> (string \<times> string) list" where
  "patterns baseName ext =
     [(''jest'', baseName @ ''.test.'' @ ext),
      (''pytest'', ''test_'' @ (case pop (split_on CHR ''/'' baseName) of None \<Rightarrow> ''undefined'' | Some b \<Rightarrow> b) @ ''.py''),
      (''junit'', baseName @ ''Test.java''),
      (''testing'', baseName @ ''_test.go''),
      (''rspec'', baseName @ ''_spec.rb''),
      (''phpunit'', baseName @ ''Test.php'')]"

text \<open>
  \<open>framework\<close> is whatever the caller passes, the request's \<open>test_framework\<close> included;
  \<open>patterns[framework]\<close> converts it to a property key, after the six patterns have been
  built.
\<close>

definition generateTestFileName :: "runtime \<Rightarrow> string \<Rightarrow> jsval \<Rightarrow> js_error + jsval" where
  "generateTestFileName rt filename framework =
     (let ext = ext_of filename;
          baseName = remove_first filename (''.'' @ ext)
      in bindE (ToString rt framework) (\<lambda>key.
           Inr (or_else (index_literal (patterns baseName ext) key)
                        (Str (baseName @ ''.test.'' @ ext)))))"

section \<open>Access gate\<close>

text \<open>
  \<open>authMiddleware\<close> reads the \<open>Authorization\<close> header (\<open>None\<close> when the request has
  none). \<open>jwt.verify\<close> belongs to the \<open>jsonwebtoken\<close> package and is a parameter: the decoded
  claims, or the error it throws. The middleware either hands the request on with
  \<open>req.user\<close> set (\<open>Next\<close>) or answers it itself (\<open>Sent\<close>); what the next handler
  does with the request is not part of the middleware.
\<close>

datatype auth_outcome = Next jsval | Sent response

definition system_user :: jsval where
  "system_user = Obj [(''id'', Str ''system''), (''role'', Str ''admin'')]"

definition authMiddleware ::
  "env \<Rightarrow> (string \<Rightarrow> string option \<Rightarrow> js_error + jsval) \<Rightarrow> string option \<Rightarrow> auth_outcome" where
  "authMiddleware env jwt_verify authorization =
     (let authHeader = (case authorization of None \<Rightarrow> [] | Some h \<Rightarrow> h)
      in if authHeader = [] \<or> \<not> startsWith authHeader ''Bearer '' then
           Sent (Response 401 (Obj
             [(''error'', Str ''Access denied. No token provided or invalid format.''),
              (''expected_format'', Str ''Bearer <token>''),
              (''received_header'', Str (if authHeader \<noteq> [] then ''Bearer ***'' else ''none''))]))
         else
           (let token = substring_from authHeader 7
            in if token = [] \<or> length (trim token) = 0 then
                 Sent (Response 401 (Obj
                   [(''error'', Str ''Access denied. Empty token provided.''),
                    (''expected_format'', Str ''Bearer <token>'')]))
               else if NODE_ENV env = Some ''development'' \<and> Some token = MCP_SERVER_TOKEN env then
                 Next system_user
               else
                 (case jwt_verify token (JWT_SECRET env) of
                    Inr decoded \<Rightarrow> Next decoded
                  | Inl jwtError \<Rightarrow>
                      if Some token = MCP_SERVER_TOKEN env then Next system_user
                      else
                        Sent (Response 401 (Obj
                          [(''error'', Str ''Invalid token''),
                           (''message'', Str (message jwtError)),
                           (''hint'', Str ''Make sure you are using the correct MCP_SERVER_TOKEN or a valid JWT token'')])))))"

section \<open>Code review agent\<close>

text \<open>
  The request body is a JSON object, given by its property list. Logging has no effect on
  the response and is left out.
\<close>

definition riskKeywords :: "string list" where
  "riskKeywords = [''security'', ''vulnerability'', ''critical'', ''dangerous'', ''unsafe'']"

definition hasHighRisk :: "string \<Rightarrow> bool" where
  "hasHighRisk content = list_ex (\<lambda>keyword. str_includes (toLowerCase content) keyword) riskKeywords"

definition extract_suggestions :: "runtime \<Rightarrow> jsval \<Rightarrow> jsval" where
  "extract_suggestions rt suggestionsResponse =
     (case bindE (get rt suggestionsResponse ''content'')
                 (str_method rt ''suggestionsResponse.content'' ''split'') of
        Inr text \<Rightarrow> Arr (map Str (take 5 (filter (\<lambda>s. 0 < length (trim s)) (split_on (CHR 0x0A) text))))
      | Inl e \<Rightarrow> Arr [Str ''Review the analysis for detailed recommendations''])"

definition code_review_body :: "runtime \<Rightarrow> services \<Rightarrow> (string \<times> jsval) list \<Rightarrow> response io" where
  "code_review_body rt svc body =
     (let repository = own body ''repository'';
          pr_number = own body ''pr_number'';
          diff_url = own body ''diff_url'';
          base_sha = own body ''base_sha'';
          head_sha = own body ''head_sha'';
          llm_model = own body ''llm_model'';
          analysis_type = own_default body ''analysis_type'' (Str ''comprehensive'')
      in if \<not> truthy repository then
           ret (Response 400 (Obj
             [(''error'', Str ''Missing required parameter: repository''),
              (''required_parameters'', Arr [Str ''repository'', Str ''pr_number''])]))
         else if \<not> truthy pr_number then
           ret (Response 400 (Obj
             [(''error'', Str ''Missing required parameter: pr_number''),
              (''required_parameters'', Arr [Str ''repository'', Str ''pr_number''])]))
         else
           bnd (await svc (FetchPRDiff repository pr_number diff_url base_sha head_sha)) (\<lambda>diffContent.
           bnd (lift (if \<not> truthy diffContent then Inr True
                      else bindE (str_method rt ''diffContent'' ''trim'' diffContent)
                             (\<lambda>d. Inr (length (trim d) = 0)))) (\<lambda>no_diff.
           if no_diff then
             ret (Response 400 (Obj
               [(''error'', Str ''No diff content available for analysis''),
                (''message'', Str ''The PR may not have any changes or the repository may not be accessible'')]))
           else
             bnd (await svc (AnalyzeCode diffContent analysis_type (Obj [(''model'', llm_model)]))) (\<lambda>analysis.
             bnd (lift (bindE (get rt analysis ''content'')
                          (str_method rt ''analysis.content'' ''toLowerCase''))) (\<lambda>content.
             let suggestionsPrompt =
                   ''Based on this code analysis, extract 3-5 specific, actionable suggestions:''
                   @ [CHR 0x0A, CHR 0x0A] @ content
             in
             bnd (await svc (GenerateResponse (Str suggestionsPrompt)
                    (Obj [(''model'', llm_model), (''maxTokens'', Num 1000)]))) (\<lambda>suggestionsResponse.
             bnd (lift (bindE (get rt analysis ''model'') (\<lambda>model.
                        bindE (get rt analysis ''provider'') (\<lambda>provider. Inr (model, provider))))) (\<lambda>(model, provider).
             let result = Obj
                   [(''status'', Str (if hasHighRisk content then ''changes_requested'' else ''approved'')),
                    (''analysis'', Str content),
                    (''risk_level'', Str (if hasHighRisk content then ''high'' else ''low'')),
                    (''suggestions'', extract_suggestions rt suggestionsResponse),
                    (''model_used'', model),
                    (''provider'', provider),
                    (''timestamp'', Str (toISOString_now rt))]
             in
             bnd (await svc (PostReviewComment repository pr_number result)) (\<lambda>_.
             ret (Response 200 result)))))))))"

definition code_review_catch :: "env \<Rightarrow> js_error \<Rightarrow> response" where
  "code_review_catch env error =
     (let (errorMessage, statusCode) =
            (if str_includes (message error) ''404'' then
               (''Repository or PR not found. Please check the repository name and PR number.'', 404)
             else if str_includes (message error) ''401'' \<or> str_includes (message error) ''403'' then
               (''Authentication failed. Please check your GitHub token permissions.'', 401)
             else (message error, 500))
      in Response statusCode (Obj
           [(''error'', Str ''Code review failed''),
            (''message'', Str errorMessage),
            (''details'', if NODE_ENV env = Some ''development'' then Str (stack error) else Undefined)]))"

definition code_review :: "runtime \<Rightarrow> env \<Rightarrow> services \<Rightarrow> (string \<times> jsval) list \<Rightarrow> response \<times> call list" where
  "code_review rt env svc body = try_catch (code_review_body rt svc body) (code_review_catch env)"

section \<open>Test writer agent\<close>

text \<open>The filter \<open>/\.(js|ts|py|java|go)$/\<close>: the file name ends in one of five extensions.\<close>

definition match_source_file :: "string \<Rightarrow> bool" where
  "match_source_file filename =
     list_ex (\<lambda>e. endsWith filename (''.'' @ e)) [''js'', ''ts'', ''py'', ''java'', ''go'']"

text \<open>\<open>for (const file of filesContent)\<close>: the elements of an array, the characters of a string.\<close>

definition iterate :: "runtime \<Rightarrow> string \<Rightarrow> jsval \<Rightarrow> js_error + jsval list" where
  "iterate rt expr v =
     (case v of
        Arr xs \<Rightarrow> Inr xs
      | Str s \<Rightarrow> Inr (map (\<lambda>c. Str [c]) s)
      | _ \<Rightarrow> Inl (TypeError rt (expr @ '' is not iterable'')))"

text \<open>
  The first loop, with its two accumulators \<open>totalTestsGenerated\<close> and \<open>generatedTests\<close>.
\<close>

fun generate_loop ::
  "runtime \<Rightarrow> services \<Rightarrow> jsval \<Rightarrow> jsval \<Rightarrow> jsval list \<Rightarrow> nat \<times> jsval list \<Rightarrow> (nat \<times> jsval list) io" where
  "generate_loop rt svc test_framework llm_model [] acc = ret acc"
| "generate_loop rt svc test_framework llm_model (file # files) acc =
     bnd (lift (bindE (get rt file ''content'') (\<lambda>content.
                if \<not> truthy content then Inr None
                else bindE (bindE (get rt file ''filename'') (str_method rt ''file.filename'' ''match''))
                       (\<lambda>filename. Inr (if match_source_file filename then Some (content, filename) else None)))))
       (\<lambda>selected.
          case selected of
            None \<Rightarrow> generate_loop rt svc test_framework llm_model files acc
          | Some (content, filename) \<Rightarrow>
              (let detectedFramework = or_else test_framework (detectTestFramework content filename)
               in bnd (await svc (GenerateTests content detectedFramework (Obj [(''model'', llm_model)]))) (\<lambda>tests.
                  bnd (lift (bindE (generateTestFileName rt filename detectedFramework) (\<lambda>test_file.
                             bindE (get rt tests ''content'') (\<lambda>tests_content.
                             Inr (test_file, tests_content))))) (\<lambda>generated.
                  generate_loop rt svc test_framework llm_model files
                    (Suc (fst acc),
                     snd acc @ [Obj
                       [(''filename'', Str filename),
                        (''test_file'', fst generated),
                        (''tests'', snd generated),
                        (''framework'', detectedFramework)]])))))"

text \<open>The second loop: one file creation per generated test.\<close>

fun create_loop :: "runtime \<Rightarrow> services \<Rightarrow> jsval \<Rightarrow> jsval list \<Rightarrow> unit io" where
  "create_loop rt svc repository [] = ret ()"
| "create_loop rt svc repository (test # tests) =
     bnd (lift (bindE (get rt test ''test_file'') (\<lambda>test_file.
                bindE (get rt test ''tests'') (\<lambda>t. Inr (test_file, t))))) (\<lambda>(test_file, t).
     bnd (await svc (CreateTestFile repository test_file t)) (\<lambda>_.
     create_loop rt svc repository tests))"

definition coverage_estimate :: "runtime \<Rightarrow> rat" where
  "coverage_estimate rt = Math_min (js_add 85 (js_mul (Math_random rt 0) 10)) 95"

definition test_writer_body :: "runtime \<Rightarrow> services \<Rightarrow> (string \<times> jsval) list \<Rightarrow> response io" where
  "test_writer_body rt svc body =
     (let repository = own body ''repository'';
          pr_number = own body ''pr_number'';
          changed_files = own body ''changed_files'';
          llm_model = own body ''llm_model'';
          test_framework = own body ''test_framework''
      in if \<not> truthy repository \<or> \<not> truthy pr_number then
           ret (Response 400 (Obj
             [(''error'', Str ''Missing required parameters''),
              (''required_parameters'', Arr [Str ''repository'', Str ''pr_number'']),
              (''received'', Obj [(''repository'', Bool (truthy repository)),
                                  (''pr_number'', Bool (truthy pr_number))])]))
         else
           bnd (await svc (FetchChangedFiles repository pr_number changed_files)) (\<lambda>filesContent.
           bnd (lift (iterate rt ''filesContent'' filesContent)) (\<lambda>files.
           bnd (generate_loop rt svc test_framework llm_model files (0, [])) (\<lambda>(totalTestsGenerated, generatedTests).
           bnd (create_loop rt svc repository generatedTests) (\<lambda>_.
           ret (Response 200 (Obj
             [(''tests_generated'', Num (of_nat totalTestsGenerated)),
              (''test_files'', Arr (map (\<lambda>t. own (case t of Obj ps \<Rightarrow> ps | _ \<Rightarrow> []) ''test_file'') generatedTests)),
              (''coverage_estimate'', Num (coverage_estimate rt)),
              (''timestamp'', Str (toISOString_now rt))])))))))"

definition test_writer_catch :: "js_error \<Rightarrow> response" where
  "test_writer_catch error =
     Response 500 (Obj
       [(''error'', Str ''Test generation failed''),
        (''message'', Str (message error)),
        (''tests_generated'', Num 0)])"

definition test_writer :: "runtime \<Rightarrow> services \<Rightarrow> (string \<times> jsval) list \<Rightarrow> response \<times> call list" where
  "test_writer rt svc body = try_catch (test_writer_body rt svc body) test_writer_catch"

section \<open>Build predictor agent\<close>

text \<open>
  Object spread \<open>{...v}\<close> copies the own enumerable properties of \<open>v\<close>: the properties of
  an object, the indexed elements of an array or string, nothing for the other values.
  A later property of the literal replaces an earlier one of the same key.
\<close>

definition spread :: "jsval \<Rightarrow> (string \<times> jsval) list" where
  "spread v =
     (case v of
        Obj ps \<Rightarrow> ps
      | Arr xs \<Rightarrow> map (\<lambda>i. (digits i, xs ! i)) [0..<length xs]
      | Str s \<Rightarrow> map (\<lambda>i. (digits i, Str [s ! i])) [0..<length s]
      | _ \<Rightarrow> [])"

definition define_props :: "(string \<times> jsval) list \<Rightarrow> (string \<times> jsval) list \<Rightarrow> (string \<times> jsval) list" where
  "define_props ps kvs = foldl (\<lambda>acc (k, v). AList.update k v acc) ps kvs"

text \<open>\<open>0.7\<close> denotes the double nearest to seven tenths.\<close>

definition default_prediction :: jsval where
  "default_prediction = Obj
     [(''success_probability'', Num 75),
      (''estimated_duration'', Str ''5-8 minutes''),
      (''potential_issues'', Arr [Str ''Dependency conflicts possible'']),
      (''resource_requirements'', Obj [(''cpu'', Str ''medium''), (''memory'', Str ''medium'')]),
      (''confidence_score'', Num (double_round (7 / 10)))]"

definition parse_prediction :: "runtime \<Rightarrow> jsval \<Rightarrow> jsval" where
  "parse_prediction rt prediction =
     (case bindE (get rt prediction ''content'') (JSON_parse rt) of
        Inr buildPrediction \<Rightarrow> buildPrediction
      | Inl e \<Rightarrow> default_prediction)"

definition build_predictor_body :: "runtime \<Rightarrow> services \<Rightarrow> (string \<times> jsval) list \<Rightarrow> response io" where
  "build_predictor_body rt svc body =
     (let repository = own body ''repository'';
          branch = own body ''branch'';
          commit_sha = own body ''commit_sha'';
          llm_model = own body ''llm_model'';
          include_dependencies = own_default body ''include_dependencies'' (Bool True)
      in bnd (await svc (GetRecentChanges repository commit_sha)) (\<lambda>changes.
         bnd (await svc (GetBuildHistory repository branch)) (\<lambda>buildHistory.
         bnd (if truthy include_dependencies then await svc (AnalyzeDependencies repository commit_sha)
              else ret Null) (\<lambda>dependencyAnalysis.
         bnd (await svc (PredictBuildOutcome changes buildHistory dependencyAnalysis
                (Obj [(''model'', llm_model)]))) (\<lambda>prediction.
         let buildPrediction = parse_prediction rt prediction
         in
         bnd (lift (bindE (get rt prediction ''model'') (\<lambda>model.
                    bindE (get rt prediction ''provider'') (\<lambda>provider. Inr (model, provider))))) (\<lambda>(model, provider).
         ret (Response 200 (Obj (define_props (spread buildPrediction)
           [(''commit_sha'', commit_sha),
            (''branch'', branch),
            (''model_used'', model),
            (''provider'', provider),
            (''dependency_analysis'', dependencyAnalysis),
            (''timestamp'', Str (toISOString_now rt))])))))))))"

definition build_predictor_catch :: "js_error \<Rightarrow> response" where
  "build_predictor_catch error =
     Response 500 (Obj
       [(''error'', Str ''Build prediction failed''),
        (''message'', Str (message error)),
        (''success_probability'', Num 50)])"

definition build_predictor :: "runtime \<Rightarrow> services \<Rightarrow> (string \<times> jsval) list \<Rightarrow> response \<times> call list" where
  "build_predictor rt svc body = try_catch (build_predictor_body rt svc body) build_predictor_catch"

section \<open>Docker handler agent\<close>

text \<open>
  The image tag is a template literal: \<open>repository\<close> is converted to text first, then the
  tag part is computed; either can throw, before the action is looked at.
\<close>

definition docker_handler_body :: "runtime \<Rightarrow> env \<Rightarrow> services \<Rightarrow> (string \<times> jsval) list \<Rightarrow> response io" where
  "docker_handler_body rt env svc body =
     (let repository = own body ''repository'';
          commit_sha = own body ''commit_sha'';
          action = own body ''action''
      in bnd (lift (bindE (ToString rt repository) (\<lambda>name.
                    bindE (if truthy commit_sha
                           then bindE (str_method rt ''commit_sha'' ''substring'' commit_sha)
                                  (\<lambda>sha. Inr (substring sha 0 8))
                           else Inr ''latest'') (\<lambda>tag.
                    Inr (Str (name @ '':'' @ tag)))))) (\<lambda>imageTag.
         if action = Str ''build_and_push'' then
              bnd (await svc (BuildDockerImage repository imageTag)) (\<lambda>_.
              bnd (await svc (GenerateK8sManifests repository imageTag)) (\<lambda>k8sManifests.
              ret (Response 200 (Obj
                [(''image_tag'', imageTag),
                 (''image_pushed'', Bool True),
                 (''k8s_manifests'', k8sManifests),
                 (''registry_url'', env_value (DOCKER_REGISTRY_URL env)),
                 (''timestamp'', Str (toISOString_now rt))]))))
            else
              ret (Response 400 (Obj
                [(''error'', Str ''Unsupported action''),
                 (''supported_actions'', Arr [Str ''build_and_push''])]))))"

definition docker_handler_catch :: "js_error \<Rightarrow> response" where
  "docker_handler_catch error =
     Response 500 (Obj
       [(''error'', Str ''Docker/K8s operation failed''),
        (''message'', Str (message error))])"

definition docker_handler :: "runtime \<Rightarrow> env \<Rightarrow> services \<Rightarrow> (string \<times> jsval) list \<Rightarrow> response \<times> call list" where
  "docker_handler rt env svc body = try_catch (docker_handler_body rt env svc body) docker_handler_catch"

section \<open>Monitor agent\<close>

text \<open>
  The handler awaits no collaborator. The four metrics take the first four results of
  \<open>Math.random()\<close>, in the order of the object literal; after them the two template
  literals convert \<open>deployment_id\<close> and \<open>monitoring_duration\<close> to text, which can throw.
\<close>

definition monitor_body :: "runtime \<Rightarrow> (string \<times> jsval) list \<Rightarrow> js_error + response" where
  "monitor_body rt body =
     (let deployment_id = own body ''deployment_id'';
          environment = own body ''environment'';
          monitoring_duration = own_default body ''monitoring_duration'' (Num 300);
          cpu_usage = js_mul (Math_random rt 0) 100;
          memory_usage = js_mul (Math_random rt 1) 100;
          response_time = js_mul (Math_random rt 2) 1000;
          error_rate = js_mul (Math_random rt 3) 5
      in bindE (ToString rt deployment_id) (\<lambda>id_text.
         bindE (ToString rt monitoring_duration) (\<lambda>duration_text.
         let alerts = (if 80 < cpu_usage then [Str ''High CPU usage detected''] else [])
                    @ (if 3 < error_rate then [Str ''Elevated error rate detected''] else [])
         in Inr (Response 200 (Obj
              [(''deployment_id'', deployment_id),
               (''environment'', environment),
               (''status'', Str ''healthy''),
               (''metrics'', Obj
                  [(''cpu_usage'', Num cpu_usage),
                   (''memory_usage'', Num memory_usage),
                   (''response_time'', Num response_time),
                   (''error_rate'', Num error_rate)]),
               (''dashboard_url'', Str (''https://monitoring.example.com/dashboard/'' @ id_text)),
               (''alerts'', Arr alerts),
               (''monitoring_duration'', Str (duration_text @ ''s'')),
               (''timestamp'', Str (toISOString_now rt))])))))"

definition monitor_catch :: "js_error \<Rightarrow> response" where
  "monitor_catch error =
     Response 500 (Obj
       [(''error'', Str ''Monitoring failed''),
        (''message'', Str (message error))])"

definition monitor :: "runtime \<Rightarrow> (string \<times> jsval) list \<Rightarrow> response" where
  "monitor rt body = (case monitor_body rt body of Inr res \<Rightarrow> res | Inl error \<Rightarrow> monitor_catch error)"

section \<open>Vulnerability scanner\<close>

text \<open>
  The inner \<open>try\<close> assigns \<open>vulnerabilities\<close> and \<open>riskLevel\<close> only after \<open>JSON.parse\<close> and the
  read of \<open>analysis.vulnerabilities\<close> have both succeeded; otherwise the \<open>catch\<close> runs with
  \<open>vulnerabilities\<close> still the empty array.
\<close>

definition fallback_risk :: "string \<Rightarrow> string" where
  "fallback_risk content =
     (if str_includes content ''critical'' \<or> str_includes content ''high risk'' then ''high''
      else if str_includes content ''medium'' \<or> str_includes content ''moderate'' then ''medium''
      else ''low'')"

definition parse_vulnerabilities :: "runtime \<Rightarrow> jsval \<Rightarrow> js_error + jsval \<times> jsval" where
  "parse_vulnerabilities rt vulnerabilityAnalysis =
     (case bindE (bindE (get rt vulnerabilityAnalysis ''content'') (JSON_parse rt)) (\<lambda>analysis.
             bindE (get rt analysis ''vulnerabilities'') (\<lambda>v.
             bindE (get rt analysis ''risk_level'') (\<lambda>r.
             Inr (or_else v (Arr []), or_else r (Str ''low''))))) of
        Inr parsed \<Rightarrow> Inr parsed
      | Inl e \<Rightarrow>
          bindE (bindE (get rt vulnerabilityAnalysis ''content'')
                   (str_method rt ''vulnerabilityAnalysis.content'' ''toLowerCase''))
            (\<lambda>text. Inr (Arr [], Str (fallback_risk (toLowerCase text)))))"

definition vulnerability_scan_body :: "runtime \<Rightarrow> services \<Rightarrow> (string \<times> jsval) list \<Rightarrow> response io" where
  "vulnerability_scan_body rt svc body =
     (let repository = own body ''repository'';
          branch = own_default body ''branch'' (Str ''main'');
          scan_type = own_default body ''scan_type'' (Str ''comprehensive'');
          llm_model = own body ''llm_model''
      in bnd (await svc (FetchRepositoryContent repository branch)) (\<lambda>repoContent.
         bnd (await svc (AnalyzeVulnerabilities repoContent scan_type (Obj [(''model'', llm_model)]))) (\<lambda>vulnerabilityAnalysis.
         bnd (lift (parse_vulnerabilities rt vulnerabilityAnalysis)) (\<lambda>(vulnerabilities, riskLevel).
         bnd (lift (bindE (get rt vulnerabilities ''length'') (\<lambda>total_issues.
                    bindE (get rt vulnerabilityAnalysis ''model'') (\<lambda>model.
                    bindE (get rt vulnerabilityAnalysis ''provider'') (\<lambda>provider.
                    Inr (total_issues, model, provider)))))) (\<lambda>(total_issues, model, provider).
         ret (Response 200 (Obj
           [(''repository'', repository),
            (''branch'', branch),
            (''scan_type'', scan_type),
            (''risk_level'', riskLevel),
            (''vulnerabilities'', vulnerabilities),
            (''total_issues'', total_issues),
            (''model_used'', model),
            (''provider'', provider),
            (''timestamp'', Str (toISOString_now rt))])))))))"

definition vulnerability_scan_catch :: "js_error \<Rightarrow> response" where
  "vulnerability_scan_catch error =
     Response 500 (Obj
       [(''error'', Str ''Vulnerability scan failed''),
        (''message'', Str (message error)),
        (''risk_level'', Str ''unknown'')])"

definition vulnerability_scan :: "runtime \<Rightarrow> services \<Rightarrow> (string \<times> jsval) list \<Rightarrow> response \<times> call list" where
  "vulnerability_scan rt svc body = try_catch (vulnerability_scan_body rt svc body) vulnerability_scan_catch"

section \<open>Terms of the specification\<close>

text \<open>A property of a response body; \<open>undefined\<close> when the body is no object.\<close>

definition field :: "response \<Rightarrow> string \<Rightarrow> jsval" where
  "field res k = (case json_body res of Obj ps \<Rightarrow> own ps k | _ \<Rightarrow> Undefined)"





text \<open>A metric of the monitor's response: a property of its \<open>metrics\<close> object.\<close>

definition metric :: "response \<Rightarrow> string \<Rightarrow> jsval" where
  "metric res k = (case field res ''metrics'' of Obj ps \<Rightarrow> own ps k | _ \<Rightarrow> Undefined)"

text \<open>A text that is empty or consists of white space only.\<close>

definition blank :: "string \<Rightarrow> bool" where
  "blank s = list_all is_space s"

section \<open>Example runs\<close>

text \<open>
  A runtime, an environment and collaborators to run the handlers on. \<open>example_parse\<close>
  accepts two JSON texts and rejects every other argument, as \<open>JSON.parse\<close> does with prose.
\<close>

definition example_parse :: "jsval \<Rightarrow> js_error + jsval" where
  "example_parse v =
     (if v = Str ''null'' then Inr Null
      else if v = Str ''{}'' then Inr (Obj [])
      else Inl (JsError ''Unexpected token in JSON at position 0'' []))"

definition example_runtime :: runtime where
  "example_runtime =
     \<lparr>JSON_parse = example_parse,
      Number_toString = (\<lambda>n. []),
      Native_toString = (\<lambda>k. []),
      Math_random = (\<lambda>i. 1 / 2),
      toISOString_now = ''2024-05-01T12:00:00.000Z'',
      stack_trace = (\<lambda>m. [])\<rparr>"

definition example_env :: env where
  "example_env =
     \<lparr>NODE_ENV = Some ''development'',
      MCP_SERVER_TOKEN = Some ''s3cret'',
      JWT_SECRET = Some ''signing-key'',
      DOCKER_REGISTRY_URL = None\<rparr>"

text \<open>A verifier that rejects every token.\<close>

definition reject_all :: "string \<Rightarrow> string option \<Rightarrow> js_error + jsval" where
  "reject_all token secret = Inl (JsError ''jwt malformed'' [])"

text \<open>
  Collaborators for a code review: the pull request has the given diff, the analysis is the
  given text, and the request for suggestions is answered as given.
\<close>

definition review_services :: "string \<Rightarrow> string \<Rightarrow> js_error + jsval \<Rightarrow> services" where
  "review_services diff analysis suggestions c =
     (case c of
        FetchPRDiff _ _ _ _ _ \<Rightarrow> Inr (Str diff)
      | AnalyzeCode _ _ _ \<Rightarrow>
          Inr (Obj [(''content'', Str analysis), (''model'', Str ''model-1''), (''provider'', Str ''provider-1'')])
      | GenerateResponse _ _ \<Rightarrow> suggestions
      | PostReviewComment _ _ _ \<Rightarrow> Inr Undefined
      | _ \<Rightarrow> Inl (JsError ''not available'' []))"

definition review_request :: "(string \<times> jsval) list" where
  "review_request = [(''repository'', Str ''octo/app''), (''pr_number'', Num 7)]"

text \<open>Collaborators that answer every call with the same response object.\<close>

definition llm_services :: "string \<Rightarrow> services" where
  "llm_services reply c =
     Inr (Obj [(''content'', Str reply), (''model'', Str ''model-1''), (''provider'', Str ''provider-1'')])"

text \<open>Collaborators for a pull request without changed files.\<close>

definition no_files_services :: services where
  "no_files_services c = (case c of FetchChangedFiles _ _ _ \<Rightarrow> Inr (Arr []) | _ \<Rightarrow> Inr Undefined)"

section \<open>Facts about strings\<close>

lemma trim_blank: "trim s = [] \<longleftrightarrow> blank s"
proof -
  have "(\<forall>x\<in>set (dropWhile is_space s). is_space x) \<longleftrightarrow> dropWhile is_space s = []"
  proof
    assume all: "\<forall>x\<in>set (dropWhile is_space s). is_space x"
    show "dropWhile is_space s = []"
    proof (rule ccontr)
      assume ne: "dropWhile is_space s \<noteq> []"
      then have "\<not> is_space (hd (dropWhile is_space s))" by (rule hd_dropWhile)
      moreover have "hd (dropWhile is_space s) \<in> set (dropWhile is_space s)" using ne by simp
      ultimately show False using all by blast
    qed
  qed (auto dest: set_dropWhileD)
  then show ?thesis
    by (simp add: trim_def blank_def list_all_iff dropWhile_eq_Nil_conv)
qed








section \<open>Facts about double rounding\<close>

lemma pow2_powi: "pow2 e = 2 powi e"
  by (simp add: pow2_def power_int_def power_inverse [symmetric] inverse_eq_divide power_one_over)

lemma pow2_pos: "0 < pow2 e"
  by (simp add: pow2_powi)

lemma pow2_add: "pow2 (a + b) = pow2 a * pow2 b"
  by (simp add: pow2_powi power_int_add)

lemma pow2_mono: "a \<le> b \<Longrightarrow> pow2 a \<le> pow2 b"
  by (simp add: pow2_powi power_int_increasing)

lemma ilog2_bounds: "0 < x \<Longrightarrow> pow2 (ilog2 x) \<le> x \<and> x < pow2 (ilog2 x + 1)"
proof (induction x rule: ilog2.induct)
  case (1 x)
  show ?case
  proof (cases "x < 1")
    case True
    with 1 have ih: "pow2 (ilog2 (2 * x)) \<le> 2 * x \<and> 2 * x < pow2 (ilog2 (2 * x) + 1)" by simp
    have eq: "ilog2 x = ilog2 (2 * x) - 1" using True 1(3) by (subst ilog2.simps) simp
    have "pow2 (ilog2 (2 * x)) = pow2 (ilog2 x) * 2" "pow2 (ilog2 (2 * x) + 1) = pow2 (ilog2 x + 1) * 2"
      using pow2_add [of "ilog2 x" 1] pow2_add [of "ilog2 x + 1" 1] by (simp_all add: eq pow2_def)
    with ih show ?thesis by simp
  next
    case False
    show ?thesis
    proof (cases "x < 2")
      case True
      with False have "ilog2 x = 0" by (subst ilog2.simps) simp
      with True False show ?thesis by (simp add: pow2_def)
    next
      case ge: False
      with False 1 have ih: "pow2 (ilog2 (x / 2)) \<le> x / 2 \<and> x / 2 < pow2 (ilog2 (x / 2) + 1)" by simp
      have eq: "ilog2 x = ilog2 (x / 2) + 1" using False ge by (subst ilog2.simps) simp
      have "pow2 (ilog2 x) = pow2 (ilog2 (x / 2)) * 2" "pow2 (ilog2 x + 1) = pow2 (ilog2 (x / 2) + 1) * 2"
        using pow2_add [of "ilog2 (x / 2)" 1] pow2_add [of "ilog2 (x / 2) + 1" 1] by (simp_all add: eq pow2_def)
      with ih show ?thesis by simp
    qed
  qed
qed

lemma roundTiesToEven_ge: "of_int n \<le> z \<Longrightarrow> n \<le> roundTiesToEven z"
proof -
  assume "of_int n \<le> z"
  then have "n \<le> \<lfloor>z\<rfloor>" by (simp add: le_floor_iff)
  then show ?thesis by (simp add: roundTiesToEven_def Let_def)
qed

lemma roundTiesToEven_le: "z \<le> of_int n \<Longrightarrow> roundTiesToEven z \<le> n"
proof -
  assume a: "z \<le> of_int n"
  then have f: "\<lfloor>z\<rfloor> \<le> n" by (simp add: floor_le_iff) 
  show ?thesis
  proof (cases "\<lfloor>z\<rfloor> = n")
    case True
    with a have "z = of_int \<lfloor>z\<rfloor>" using of_int_floor_le [of z] by simp
    then have "z - of_int \<lfloor>z\<rfloor> = 0" by simp
    with True show ?thesis by (simp add: roundTiesToEven_def Let_def)
  next
    case False
    with f have "\<lfloor>z\<rfloor> + 1 \<le> n" by simp
    then show ?thesis by (simp add: roundTiesToEven_def Let_def)
  qed
qed

lemma roundTiesToEven_below_half: "z < of_int n - 1 / 2 \<Longrightarrow> roundTiesToEven z \<le> n - 1"
proof -
  assume a: "z < of_int n - 1 / 2"
  then have "z < of_int n" by simp
  then have f: "\<lfloor>z\<rfloor> \<le> n - 1" by (simp add: floor_less_iff)
  show ?thesis
  proof (cases "\<lfloor>z\<rfloor> = n - 1")
    case True
    then have "z - of_int \<lfloor>z\<rfloor> < 1 / 2" using a by simp
    with True show ?thesis by (simp add: roundTiesToEven_def Let_def)
  next
    case False
    with f have "\<lfloor>z\<rfloor> + 1 \<le> n - 1" by simp
    then show ?thesis by (simp add: roundTiesToEven_def Let_def)
  qed
qed

lemma double_round_nonneg: "0 \<le> x \<Longrightarrow> 0 \<le> double_round x"
proof -
  assume x: "0 \<le> x"
  have "0 \<le> roundTiesToEven (x / pow2 e)" for e
    using x pow2_pos [of e] by (intro roundTiesToEven_ge) (simp add: less_imp_le)
  then show ?thesis
    using pow2_pos by (simp add: double_round_def Let_def less_imp_le)
qed

text \<open>An integer below \<open>2^53\<close> is a double, and rounding never crosses it.\<close>

lemma double_round_ge_int:
  assumes c: "0 < c" "c \<le> 2 ^ 53" and y: "of_int c \<le> y"
  shows "of_int c \<le> double_round y"
proof -
  have "(0 :: rat) < of_int c" using c by (simp only: of_int_0_less_iff)
  with y have ypos: "0 < y" by simp
  define k where "k = ilog2 y"
  define e where "e = max k (- 1022) - 52"
  have kb: "pow2 k \<le> y" "y < pow2 (k + 1)" using ilog2_bounds [OF ypos] by (simp_all add: k_def)
  have "1 \<le> c" using c by simp
  then have "(1 :: rat) \<le> of_int c" by (simp only: of_int_1_le_iff)
  with y have "1 \<le> y" by simp
  have k0: "0 \<le> k"
  proof (rule ccontr)
    assume "\<not> 0 \<le> k"
    then have "k + 1 \<le> 0" by simp
    then have "pow2 (k + 1) \<le> pow2 0" by (rule pow2_mono)
    with kb \<open>1 \<le> y\<close> show False by (simp add: pow2_def)
  qed
  then have e: "e = k - 52" by (simp add: e_def)
  have dr: "double_round y = pow2 e * of_int (roundTiesToEven (y / pow2 e))"
    using ypos by (simp add: double_round_def Let_def e_def k_def)
  show ?thesis
  proof (cases "e \<le> 0")
    case True
    define n where "n = c * 2 ^ nat (- e)"
    have "pow2 e * of_int n = of_int c"
      using True by (simp add: n_def pow2_def)
    then have cn: "of_int c = pow2 e * of_int n" by simp
    have "of_int n \<le> y / pow2 e"
      using y pow2_pos [of e] by (simp add: cn pos_le_divide_eq mult.commute)
    then have "n \<le> roundTiesToEven (y / pow2 e)" by (rule roundTiesToEven_ge)
    then have "pow2 e * of_int n \<le> pow2 e * of_int (roundTiesToEven (y / pow2 e))"
      using pow2_pos [of e] by simp
    then show ?thesis by (simp add: dr cn)
  next
    case False
    have "pow2 k = pow2 e * pow2 52" using pow2_add [of e 52] by (simp add: e)
    then have "pow2 52 \<le> y / pow2 e"
      using kb(1) pow2_pos [of e] by (simp add: pos_le_divide_eq mult.commute)
    moreover have "pow2 52 = of_int (2 ^ 52)" by (simp add: pow2_def)
    ultimately have "2 ^ 52 \<le> roundTiesToEven (y / pow2 e)" by (simp add: roundTiesToEven_ge)
    then have "(of_int (2 ^ 52) :: rat) \<le> of_int (roundTiesToEven (y / pow2 e))"
      by (simp only: of_int_le_iff)
    moreover have "2 \<le> pow2 e" using pow2_mono [of 1 e] False by (simp add: pow2_def)
    ultimately have "2 * of_int (2 ^ 52) \<le> pow2 e * of_int (roundTiesToEven (y / pow2 e))"
      by (intro mult_mono) simp_all
    moreover have "(of_int c :: rat) \<le> 2 * of_int (2 ^ 52)"
    proof -
      have "(of_int c :: rat) \<le> of_int (2 ^ 53)" using c by (simp only: of_int_le_iff)
      then show ?thesis by simp
    qed
    ultimately show ?thesis by (simp add: dr)
  qed
qed

lemma coverage_estimate_range:
  assumes "0 \<le> Math_random rt 0"
  shows "85 \<le> coverage_estimate rt \<and> coverage_estimate rt \<le> 95"
proof -
  have "0 \<le> js_mul (Math_random rt 0) 10"
    using assms by (simp add: js_mul_def double_round_nonneg)
  then have "of_int 85 \<le> 85 + js_mul (Math_random rt 0) 10" by simp
  then have "of_int 85 \<le> double_round (85 + js_mul (Math_random rt 0) 10)"
    by (intro double_round_ge_int) simp_all
  then show ?thesis by (simp add: coverage_estimate_def js_add_def Math_min_def)
qed


lemma double_round_pos_eq:
  "0 < x \<Longrightarrow> double_round x =
     pow2 (max (ilog2 x) (- 1022) - 52) * of_int (roundTiesToEven (x / pow2 (max (ilog2 x) (- 1022) - 52)))"
  by (simp add: double_round_def Let_def)

text \<open>Rounding stays below a bound \<open>b\<close> that is a double of the binade \<open>k\<close>, from half a unit below it.\<close>

lemma double_round_less:
  assumes k: "0 \<le> k" and b: "b = of_int m * pow2 (k - 52)" and lo: "pow2 k < b"
    and hi: "b \<le> pow2 (k + 1)" and x: "0 \<le> x" "x < b - pow2 (k - 53)"
  shows "double_round x < b"
proof (cases "x = 0")
  case True
  with lo pow2_pos [of k] show ?thesis by (simp add: double_round_def)
next
  case False
  with x have xpos: "0 < x" by simp
  define j where "j = ilog2 x"
  define e where "e = max j (- 1022) - 52"
  have jb: "pow2 j \<le> x" "x < pow2 (j + 1)" using ilog2_bounds [OF xpos] by (simp_all add: j_def)
  have dr: "double_round x = pow2 e * of_int (roundTiesToEven (x / pow2 e))"
    using double_round_pos_eq [OF xpos] by (simp add: e_def j_def)
  have xb: "x < b" using x(2) pow2_pos [of "k - 53"] by simp
  have jk: "j \<le> k"
  proof (rule ccontr)
    assume "\<not> j \<le> k"
    then have "k + 1 \<le> j" by simp
    then have "pow2 (k + 1) \<le> pow2 j" by (rule pow2_mono)
    with jb(1) xb hi show False by simp
  qed
  show ?thesis
  proof (cases "j = k")
    case True
    then have e: "e = k - 52" using k by (simp add: e_def)
    have half: "pow2 (k - 53) = pow2 e * (1 / 2)"
      using pow2_add [of e "- 1"] by (simp add: e pow2_def)
    have "x < pow2 e * (of_int m - 1 / 2)"
      using x(2) by (simp add: b half e algebra_simps)
    then have "x / pow2 e < of_int m - 1 / 2"
      using pow2_pos [of e] by (simp add: pos_divide_less_eq mult.commute)
    then have "roundTiesToEven (x / pow2 e) \<le> m - 1" by (rule roundTiesToEven_below_half)
    then have "(of_int (roundTiesToEven (x / pow2 e)) :: rat) \<le> of_int (m - 1)"
      by (simp only: of_int_le_iff)
    then have "pow2 e * of_int (roundTiesToEven (x / pow2 e)) \<le> pow2 e * of_int (m - 1)"
      using pow2_pos [of e] by simp
    also have "\<dots> < pow2 e * of_int m" using pow2_pos [of e] by simp
    finally show ?thesis by (simp add: dr b e mult.commute)
  next
    case False
    with jk have jlt: "j < k" by simp
    have e52: "e + 53 \<le> k" using jlt k by (simp add: e_def)
    have ej: "j - 52 \<le> e" by (simp add: e_def)
    have "j + 1 = (j - 52) + 53" by simp
    then have "pow2 (j + 1) = pow2 (j - 52) * pow2 53" by (simp only: pow2_add)
    also have "\<dots> \<le> pow2 e * pow2 53" using pow2_mono [OF ej] pow2_pos [of 53] by simp
    finally have "x < pow2 e * pow2 53" using jb(2) by simp
    then have "x / pow2 e < pow2 53"
      using pow2_pos [of e] by (simp add: pos_divide_less_eq mult.commute)
    moreover have "pow2 53 = of_int (2 ^ 53)" by (simp add: pow2_def)
    ultimately have "roundTiesToEven (x / pow2 e) \<le> 2 ^ 53"
      by (intro roundTiesToEven_le) simp
    then have "(of_int (roundTiesToEven (x / pow2 e)) :: rat) \<le> of_int (2 ^ 53)"
      by (simp only: of_int_le_iff)
    then have "pow2 e * of_int (roundTiesToEven (x / pow2 e)) \<le> pow2 e * pow2 53"
      using pow2_pos [of e] \<open>pow2 53 = of_int (2 ^ 53)\<close> by simp
    also have "\<dots> = pow2 (e + 53)" by (simp add: pow2_add)
    also have "\<dots> \<le> pow2 k" using e52 by (rule pow2_mono)
    finally show ?thesis using lo by (simp add: dr)
  qed
qed

text \<open>The largest double below one is \<open>1 - 2^(-53)\<close>.\<close>

lemma double_below_one:
  assumes "is_double r" "0 \<le> r" "r < 1"
  shows "r \<le> 1 - 1 / 2 ^ 53"
proof (cases "r = 0")
  case True
  then show ?thesis by simp
next
  case False
  with assms have rpos: "0 < r" by simp
  define j where "j = ilog2 r"
  have jb: "pow2 j \<le> r" "r < pow2 (j + 1)" using ilog2_bounds [OF rpos] by (simp_all add: j_def)
  have jneg: "j \<le> - 1"
  proof (rule ccontr)
    assume "\<not> j \<le> - 1"
    then have "0 \<le> j" by simp
    then have "pow2 0 \<le> pow2 j" by (rule pow2_mono)
    with jb(1) assms(3) show False by (simp add: pow2_def)
  qed
  show ?thesis
  proof (cases "j = - 1")
    case True
    define m where "m = roundTiesToEven (r / pow2 (- 53))"
    have "double_round r = pow2 (- 53) * of_int m"
      using double_round_pos_eq [OF rpos] True by (simp add: j_def m_def)
    with assms(1) have r: "r = of_int m / 2 ^ 53" by (simp add: is_double_def pow2_def)
    with assms(3) have "(of_int m :: rat) < of_int (2 ^ 53)" by (simp add: field_simps)
    then have "m < 2 ^ 53" by (simp only: of_int_less_iff)
    then have "m \<le> 2 ^ 53 - 1" by simp
    then have "(of_int m :: rat) \<le> of_int (2 ^ 53 - 1)" by (simp only: of_int_le_iff)
    then show ?thesis by (simp add: r field_simps)
  next
    case False
    with jneg have "j + 1 \<le> - 1" by simp
    then have "pow2 (j + 1) \<le> pow2 (- 1)" by (rule pow2_mono)
    with jb(2) have "r < 1 / 2" by (simp add: pow2_def)
    then show ?thesis by simp
  qed
qed

lemma random_times_100:
  assumes "is_double r" "0 \<le> r" "r < 1"
  shows "0 \<le> js_mul r 100 \<and> js_mul r 100 < 100"
proof -
  have r: "r \<le> 1 - 1 / 2 ^ 53" using assms by (rule double_below_one)
  have "double_round (r * 100) < 100"
  proof (rule double_round_less [where k = 6 and m = "100 * 2 ^ 46"])
    show "r * 100 < 100 - pow2 (6 - 53)" using r by (simp add: pow2_def)
  qed (use assms in \<open>simp_all add: pow2_def\<close>)
  then show ?thesis using assms by (simp add: js_mul_def double_round_nonneg)
qed

lemma random_times_5:
  assumes "is_double r" "0 \<le> r" "r < 1"
  shows "0 \<le> js_mul r 5 \<and> js_mul r 5 < 5"
proof -
  have r: "r \<le> 1 - 1 / 2 ^ 53" using assms by (rule double_below_one)
  have "double_round (r * 5) < 5"
  proof (rule double_round_less [where k = 2 and m = "5 * 2 ^ 50"])
    show "r * 5 < 5 - pow2 (2 - 53)" using r by (simp add: pow2_def)
  qed (use assms in \<open>simp_all add: pow2_def\<close>)
  then show ?thesis using assms by (simp add: js_mul_def double_round_nonneg)
qed

section \<open>Running a handler\<close>

lemmas io_defs = bnd_def await_def lift_def ret_def bindE_def try_catch_def


section \<open>The test framework catalogue\<close>

lemma frameworks_distinct: "distinct (map fst frameworks)"
  by (simp add: frameworks_def)


lemma frameworks_values: "(e, fw) \<in> set frameworks \<Longrightarrow> fw \<noteq> [] \<and> fw \<noteq> ''generic''"
  unfolding frameworks_def by auto


text \<open>
  What \<open>detectTestFramework\<close> answers for a file that is not itself a test: the table's
  entry for the extension, and \<open>generic\<close> for an extension that is neither in the table nor
  the name of a member of \<open>Object.prototype\<close>.
\<close>

lemma detectTestFramework_table:
  assumes "\<not> str_includes f ''.test.''" "\<not> str_includes f ''.spec.''"
  shows "detectTestFramework c f = Str fw \<longleftrightarrow>
     (ext_of f, fw) \<in> set frameworks \<or>
     (fw = ''generic'' \<and> ext_of f \<notin> fst ` set frameworks \<and> ext_of f \<notin> set Object_prototype_keys)"
proof (cases "map_of frameworks (ext_of f)")
  case None
  then have notin: "ext_of f \<notin> fst ` set frameworks" by (simp add: map_of_eq_None_iff)
  then have "\<And>v. (ext_of f, v) \<notin> set frameworks" by force
  with None notin assms show ?thesis
    by (auto simp: detectTestFramework_def or_else_def index_literal_def)
next
  case (Some v)
  then have mem: "(ext_of f, v) \<in> set frameworks" by (rule map_of_SomeD)
  then have v: "v \<noteq> []" "v \<noteq> ''generic''" using frameworks_values by blast+
  have uniq: "(ext_of f, w) \<in> set frameworks \<longleftrightarrow> w = v" for w
    using Some by (auto simp: map_of_eq_Some_iff [OF frameworks_distinct, symmetric])
  have "ext_of f \<in> fst ` set frameworks" using mem by force
  with Some v assms uniq show ?thesis
    by (auto simp: detectTestFramework_def or_else_def index_literal_def)
qed

lemma detectTestFramework_prototype:
  "detectTestFramework c ''x.constructor'' = Native ''constructor''"
  by code_simp


section \<open>The access gate\<close>

text \<open>
  C1, as amended. For every credential that is not blank after trimming: if the
  development flag is set and the credential equals the configured shared secret, access
  is granted with the system identity \<open>{id: 'system', role: 'admin'}\<close>; and if the
  credential fails signature verification and is not the shared secret, the request is
  answered with status 401 and the error \<open>Invalid token\<close>. Every credential that is blank
  after trimming is answered with the empty-credential 401 response, whatever the flag,
  the secret and the verifier are.
\<close>

theorem C1_access_gate:
  "(trim token \<noteq> [] \<and> NODE_ENV env = Some ''development'' \<and> MCP_SERVER_TOKEN env = Some token \<longrightarrow>
      authMiddleware env verify (Some (''Bearer '' @ token)) = Next system_user) \<and>
   (trim token \<noteq> [] \<and> verify token (JWT_SECRET env) = Inl e \<and> MCP_SERVER_TOKEN env \<noteq> Some token \<longrightarrow>
      authMiddleware env verify (Some (''Bearer '' @ token)) =
        Sent (Response 401 (Obj
          [(''error'', Str ''Invalid token''),
           (''message'', Str (message e)),
           (''hint'', Str ''Make sure you are using the correct MCP_SERVER_TOKEN or a valid JWT token'')]))) \<and>
   (trim token = [] \<longrightarrow>
      authMiddleware env verify (Some (''Bearer '' @ token)) =
        Sent (Response 401 (Obj
          [(''error'', Str ''Access denied. Empty token provided.''),
           (''expected_format'', Str ''Bearer <token>'')])))"
proof -
  have ne: "token \<noteq> []" if "trim token \<noteq> []" using that by (auto simp: trim_def)
  show ?thesis
    using ne by (auto simp: authMiddleware_def startsWith_def substring_from_def Let_def)
qed

text \<open>
  The shared secret under the development flag, a guessed credential, and a credential of
  three spaces.
\<close>

theorem C1_access_gate_witness:
  "trim ''s3cret'' \<noteq> [] \<and>
   authMiddleware example_env reject_all (Some ''Bearer s3cret'') = Next system_user \<and>
   trim ''guess'' \<noteq> [] \<and>
   authMiddleware example_env reject_all (Some ''Bearer guess'') =
     Sent (Response 401 (Obj
       [(''error'', Str ''Invalid token''),
        (''message'', Str ''jwt malformed''),
        (''hint'', Str ''Make sure you are using the correct MCP_SERVER_TOKEN or a valid JWT token'')])) \<and>
   trim ''   '' = [] \<and>
   authMiddleware example_env reject_all (Some ''Bearer    '') =
     Sent (Response 401 (Obj
       [(''error'', Str ''Access denied. Empty token provided.''),
        (''expected_format'', Str ''Bearer <token>'')]))"
proof -
  have secret: "trim ''s3cret'' \<noteq> []" by code_simp
  have guess: "trim ''guess'' \<noteq> []" by code_simp
  have spaces: "trim ''   '' = []" by code_simp
  have dev: "NODE_ENV example_env = Some ''development''"
    and tok: "MCP_SERVER_TOKEN example_env = Some ''s3cret''"
    by (simp_all add: example_env_def)
  have other: "MCP_SERVER_TOKEN example_env \<noteq> Some ''guess''" by (simp add: example_env_def)
  have rej: "reject_all ''guess'' (JWT_SECRET example_env) = Inl (JsError ''jwt malformed'' [])"
    by (simp add: reject_all_def)
  have granted: "authMiddleware example_env reject_all (Some (''Bearer '' @ ''s3cret'')) = Next system_user"
    by (rule C1_access_gate [where token = "''s3cret''" and env = example_env and verify = reject_all,
          THEN conjunct1, rule_format, OF conjI [OF secret conjI [OF dev tok]]])
  have denied: "authMiddleware example_env reject_all (Some (''Bearer '' @ ''guess'')) =
     Sent (Response 401 (Obj
       [(''error'', Str ''Invalid token''),
        (''message'', Str (message (JsError ''jwt malformed'' []))),
        (''hint'', Str ''Make sure you are using the correct MCP_SERVER_TOKEN or a valid JWT token'')]))"
    by (rule C1_access_gate [where token = "''guess''" and env = example_env and verify = reject_all
          and e = "JsError ''jwt malformed'' []",
          THEN conjunct2, THEN conjunct1, rule_format, OF conjI [OF guess conjI [OF rej other]]])
  have empty: "authMiddleware example_env reject_all (Some (''Bearer '' @ ''   '')) =
     Sent (Response 401 (Obj
       [(''error'', Str ''Access denied. Empty token provided.''),
        (''expected_format'', Str ''Bearer <token>'')]))"
    by (rule C1_access_gate [where token = "''   ''" and env = example_env and verify = reject_all,
          THEN conjunct2, THEN conjunct2, rule_format, OF spaces])
  from secret guess spaces granted denied empty show ?thesis by simp
qed

text \<open>
  C1 as stated fails on a credential of white space, such as the one no-break space that
  the header \<open>Bearer\<close>, a space and the byte \<open>0xA0\<close> carry. With that credential configured
  as the shared secret and the development flag set, the credential equal to the secret is
  refused; and with the shared secret \<open>s3cret\<close>, the same non-empty credential, which
  fails verification and is not the shared secret, is answered with the empty-credential
  response, not with \<open>Invalid token\<close>.
\<close>

theorem C1_access_gate_counterexample:
  "authMiddleware
      \<lparr>NODE_ENV = Some ''development'', MCP_SERVER_TOKEN = Some [CHR 0xA0],
       JWT_SECRET = Some ''signing-key'', DOCKER_REGISTRY_URL = None\<rparr>
      reject_all (Some (''Bearer '' @ [CHR 0xA0])) =
     Sent (Response 401 (Obj
       [(''error'', Str ''Access denied. Empty token provided.''),
        (''expected_format'', Str ''Bearer <token>'')])) \<and>
   [CHR 0xA0] \<noteq> [] \<and>
   reject_all [CHR 0xA0] (JWT_SECRET example_env) = Inl (JsError ''jwt malformed'' []) \<and>
   MCP_SERVER_TOKEN example_env \<noteq> Some [CHR 0xA0] \<and>
   authMiddleware example_env reject_all (Some (''Bearer '' @ [CHR 0xA0])) =
     Sent (Response 401 (Obj
       [(''error'', Str ''Access denied. Empty token provided.''),
        (''expected_format'', Str ''Bearer <token>'')]))"
  by code_simp

section \<open>The code review pipeline\<close>

text \<open>
  C7. For every code-review request with a repository and a pull request number whose
  fetched diff is empty or white space only, the response is a 400 that names the missing
  diff as the cause, and the only collaborator call of the run is the diff fetch: no
  analysis is requested and no review comment is posted.
\<close>

theorem C7_empty_diff:
  assumes "truthy (own body ''repository'')" and "truthy (own body ''pr_number'')"
    and "svc (FetchPRDiff (own body ''repository'') (own body ''pr_number'') (own body ''diff_url'')
               (own body ''base_sha'') (own body ''head_sha'')) = Inr (Str diff)"
    and "blank diff"
  shows "code_review rt env svc body =
     (Response 400 (Obj
        [(''error'', Str ''No diff content available for analysis''),
         (''message'', Str ''The PR may not have any changes or the repository may not be accessible'')]),
      [FetchPRDiff (own body ''repository'') (own body ''pr_number'') (own body ''diff_url'')
               (own body ''base_sha'') (own body ''head_sha'')])"
  using assms
  by (simp add: code_review_def code_review_body_def Let_def io_defs str_method_def trim_blank)

text \<open>A diff of one space.\<close>

theorem C7_empty_diff_witness:
  "code_review example_runtime example_env (review_services '' '' ''fine'' (Inr Undefined)) review_request =
     (Response 400 (Obj
        [(''error'', Str ''No diff content available for analysis''),
         (''message'', Str ''The PR may not have any changes or the repository may not be accessible'')]),
      [FetchPRDiff (Str ''octo/app'') (Num 7) Undefined Undefined Undefined])"
proof -
  have 1: "truthy (own review_request ''repository'')" by code_simp
  have 2: "truthy (own review_request ''pr_number'')" by code_simp
  have 3: "review_services '' '' ''fine'' (Inr Undefined)
             (FetchPRDiff (own review_request ''repository'') (own review_request ''pr_number'')
                (own review_request ''diff_url'') (own review_request ''base_sha'')
                (own review_request ''head_sha'')) = Inr (Str '' '')"
    by (simp add: review_services_def)
  have 4: "blank '' ''" by code_simp
  have o: "own review_request ''repository'' = Str ''octo/app''"
    "own review_request ''pr_number'' = Num 7"
    "own review_request ''diff_url'' = Undefined"
    "own review_request ''base_sha'' = Undefined"
    "own review_request ''head_sha'' = Undefined"
    by (simp_all add: own_def review_request_def)
  show ?thesis
    using C7_empty_diff [where body = review_request
        and svc = "review_services '' '' ''fine'' (Inr Undefined)"
        and diff = "'' ''" and rt = example_runtime and env = example_env, OF 1 2 3 4]
    unfolding o .
qed






text \<open>
  C2 does not hold of the code. The request for suggestions is awaited outside the inner
  \<open>try\<close>, which covers only the splitting of the answer. On a request that has passed
  validation, diff fetch and analysis, a rejected suggestions call ends the run in the
  handler's \<open>catch\<close>: the response is a 500 \<open>Code review failed\<close>, no decision record is
  returned and no review comment is posted.
\<close>

theorem C2_suggestions_call_rejected:
  "code_review example_runtime example_env
     (review_services ''+ x = 1'' ''Looks fine'' (Inl (JsError ''LLM request timed out'' ''trace'')))
     review_request =
   (Response 500 (Obj
      [(''error'', Str ''Code review failed''),
       (''message'', Str ''LLM request timed out''),
       (''details'', Str ''trace'')]),
    [FetchPRDiff (Str ''octo/app'') (Num 7) Undefined Undefined Undefined,
     AnalyzeCode (Str ''+ x = 1'') (Str ''comprehensive'') (Obj [(''model'', Undefined)]),
     GenerateResponse
       (Str (''Based on this code analysis, extract 3-5 specific, actionable suggestions:''
             @ [CHR 0x0A, CHR 0x0A] @ ''Looks fine''))
       (Obj [(''model'', Undefined), (''maxTokens'', Num 1000)])])"
  by code_simp

text \<open>
  What the inner \<open>try\<close> does catch: an answer without a text to split gives the one generic
  suggestion.
\<close>

lemma extract_suggestions_fallback:
  assumes "\<forall>s. get rt v ''content'' \<noteq> Inr (Str s)"
  shows "extract_suggestions rt v = Arr [Str ''Review the analysis for detailed recommendations'']"
proof (cases "get rt v ''content''")
  case (Inl e)
  then show ?thesis by (simp add: extract_suggestions_def bindE_def)
next
  case (Inr c)
  with assms have "\<forall>s. c \<noteq> Str s" by simp
  then have "\<exists>e. str_method rt ''suggestionsResponse.content'' ''split'' c = Inl e"
    by (cases c) (simp_all add: str_method_def)
  with Inr show ?thesis by (auto simp: extract_suggestions_def bindE_def)
qed

section \<open>The docker handler\<close>

text \<open>
  C10, as amended. For every docker-handler request whose \<open>action\<close> is not exactly
  \<open>build_and_push\<close> (an absent field included), no collaborator operation is invoked;
  and when \<open>repository\<close> converts to text and \<open>commit_sha\<close> is absent, falsy or a string,
  the response is a 400 that lists \<open>build_and_push\<close> as the supported action.
\<close>

theorem C10_unsupported_action:
  assumes "own body ''action'' \<noteq> Str ''build_and_push''"
  shows "snd (docker_handler rt env svc body) = [] \<and>
         ((\<exists>name. ToString rt (own body ''repository'') = Inr name) \<and>
          (\<not> truthy (own body ''commit_sha'') \<or> (\<exists>sha. own body ''commit_sha'' = Str sha)) \<longrightarrow>
          fst (docker_handler rt env svc body) =
            Response 400 (Obj [(''error'', Str ''Unsupported action''),
                               (''supported_actions'', Arr [Str ''build_and_push''])]))"
  using assms unfolding docker_handler_def docker_handler_body_def Let_def io_defs str_method_def
  by (auto split: jsval.splits sum.splits)

text \<open>A request without an action, for a repository and a commit given as strings.\<close>

theorem C10_unsupported_action_witness:
  "own [(''repository'', Str ''octo/app''), (''commit_sha'', Str ''0123456789abcdef'')] ''action''
     \<noteq> Str ''build_and_push'' \<and>
   ToString example_runtime
     (own [(''repository'', Str ''octo/app''), (''commit_sha'', Str ''0123456789abcdef'')] ''repository'')
     = Inr ''octo/app'' \<and>
   docker_handler example_runtime example_env no_files_services
     [(''repository'', Str ''octo/app''), (''commit_sha'', Str ''0123456789abcdef'')] =
   (Response 400 (Obj [(''error'', Str ''Unsupported action''),
                       (''supported_actions'', Arr [Str ''build_and_push''])]), [])"
proof -
  let ?body = "[(''repository'', Str ''octo/app''), (''commit_sha'', Str ''0123456789abcdef'')]"
  have a: "own ?body ''action'' \<noteq> Str ''build_and_push''" by code_simp
  have r: "ToString example_runtime (own ?body ''repository'') = Inr ''octo/app''" by (simp add: own_def)
  then have r': "\<exists>name. ToString example_runtime (own ?body ''repository'') = Inr name" ..
  have c: "\<not> truthy (own ?body ''commit_sha'') \<or> (\<exists>sha. own ?body ''commit_sha'' = Str sha)"
    by (simp add: own_def)
  note inst = C10_unsupported_action [where body = ?body and rt = example_runtime and env = example_env
      and svc = no_files_services, OF a]
  have "snd (docker_handler example_runtime example_env no_files_services ?body) = []"
    by (rule inst [THEN conjunct1])
  moreover have "fst (docker_handler example_runtime example_env no_files_services ?body) =
            Response 400 (Obj [(''error'', Str ''Unsupported action''),
                               (''supported_actions'', Arr [Str ''build_and_push''])])"
    by (rule inst [THEN conjunct2, rule_format, OF conjI [OF r' c]])
  ultimately have "docker_handler example_runtime example_env no_files_services ?body =
     (Response 400 (Obj [(''error'', Str ''Unsupported action''),
                       (''supported_actions'', Arr [Str ''build_and_push''])]), [])"
    by (simp add: prod_eq_iff)
  with a r show ?thesis by (intro conjI)
qed

text \<open>
  C10 as stated fails on a request whose \<open>commit_sha\<close> is a number, and on one whose
  \<open>repository\<close> is an object with a \<open>toString\<close> property: the image tag is computed before
  the action is looked at, \<open>commit_sha.substring\<close> is not a function and the object has no
  text, and the handler's \<open>catch\<close> answers with a 500.
\<close>

theorem C10_unsupported_action_counterexample:
  "own [(''action'', Str ''deploy''), (''commit_sha'', Num 12345678)] ''action'' \<noteq> Str ''build_and_push'' \<and>
   docker_handler example_runtime example_env no_files_services
      [(''action'', Str ''deploy''), (''commit_sha'', Num 12345678)] =
   (Response 500 (Obj [(''error'', Str ''Docker/K8s operation failed''),
                       (''message'', Str ''commit_sha.substring is not a function'')]), []) \<and>
   own [(''action'', Str ''deploy''), (''repository'', Obj [(''toString'', Num 0)])] ''action''
      \<noteq> Str ''build_and_push'' \<and>
   docker_handler example_runtime example_env no_files_services
      [(''action'', Str ''deploy''), (''repository'', Obj [(''toString'', Num 0)])] =
   (Response 500 (Obj [(''error'', Str ''Docker/K8s operation failed''),
                       (''message'', Str ''Cannot convert object to primitive value'')]), [])"
  by code_simp

section \<open>The build predictor\<close>

text \<open>
  C5. For every prediction response object of the LLM collaborator whose content
  \<open>JSON.parse\<close> rejects, the request does not end in the error handler: the response is a
  200 whose body holds the fixed default prediction (success probability 75, estimated
  duration \<open>5-8 minutes\<close>, the one potential issue \<open>Dependency conflicts possible\<close>,
  resource requirements cpu \<open>medium\<close> and memory \<open>medium\<close>, confidence score 0.7), followed
  by the request's commit and branch, the model and provider of the response, the
  dependency analysis and the timestamp.
\<close>

theorem C5_default_prediction:
  assumes "svc (GetRecentChanges (own body ''repository'') (own body ''commit_sha'')) = Inr changes"
    and "svc (GetBuildHistory (own body ''repository'') (own body ''branch'')) = Inr buildHistory"
    and "(if truthy (own_default body ''include_dependencies'' (Bool True))
          then svc (AnalyzeDependencies (own body ''repository'') (own body ''commit_sha''))
          else Inr Null) = Inr dependencyAnalysis"
    and "svc (PredictBuildOutcome changes buildHistory dependencyAnalysis
               (Obj [(''model'', own body ''llm_model'')])) = Inr (Obj prediction)"
    and "JSON_parse rt (own prediction ''content'') = Inl e"
  shows "fst (build_predictor rt svc body) = Response 200 (Obj
           [(''success_probability'', Num 75),
            (''estimated_duration'', Str ''5-8 minutes''),
            (''potential_issues'', Arr [Str ''Dependency conflicts possible'']),
            (''resource_requirements'', Obj [(''cpu'', Str ''medium''), (''memory'', Str ''medium'')]),
            (''confidence_score'', Num (double_round (7 / 10))),
            (''commit_sha'', own body ''commit_sha''),
            (''branch'', own body ''branch''),
            (''model_used'', own prediction ''model''),
            (''provider'', own prediction ''provider''),
            (''dependency_analysis'', dependencyAnalysis),
            (''timestamp'', Str (toISOString_now rt))])"
proof -
  have p: "parse_prediction rt (Obj prediction) = default_prediction"
    using assms(5) by (simp add: parse_prediction_def get_def bindE_def)
  have d: "define_props (spread default_prediction)
           [(''commit_sha'', c), (''branch'', b), (''model_used'', m), (''provider'', pr),
            (''dependency_analysis'', da), (''timestamp'', ts)] =
           [(''success_probability'', Num 75),
            (''estimated_duration'', Str ''5-8 minutes''),
            (''potential_issues'', Arr [Str ''Dependency conflicts possible'']),
            (''resource_requirements'', Obj [(''cpu'', Str ''medium''), (''memory'', Str ''medium'')]),
            (''confidence_score'', Num (double_round (7 / 10))),
            (''commit_sha'', c), (''branch'', b), (''model_used'', m), (''provider'', pr),
            (''dependency_analysis'', da), (''timestamp'', ts)]" for c b m pr da ts
    by (simp add: define_props_def spread_def default_prediction_def)
  show ?thesis
    using assms(1-4)
    unfolding build_predictor_def build_predictor_body_def Let_def
    by (auto simp: io_defs p d get_def split: if_splits)
qed

text \<open>A prediction in prose gives the default, with \<open>0.7\<close> as the double it denotes.\<close>

theorem C5_default_prediction_witness:
  "fst (build_predictor example_runtime (llm_services ''The build will probably pass.'')
          [(''repository'', Str ''octo/app''), (''branch'', Str ''main'')]) =
   Response 200 (Obj
           [(''success_probability'', Num 75),
            (''estimated_duration'', Str ''5-8 minutes''),
            (''potential_issues'', Arr [Str ''Dependency conflicts possible'']),
            (''resource_requirements'', Obj [(''cpu'', Str ''medium''), (''memory'', Str ''medium'')]),
            (''confidence_score'', Num (3152519739159347 / 4503599627370496)),
            (''commit_sha'', Undefined),
            (''branch'', Str ''main''),
            (''model_used'', Str ''model-1''),
            (''provider'', Str ''provider-1''),
            (''dependency_analysis'',
               Obj [(''content'', Str ''The build will probably pass.''), (''model'', Str ''model-1''),
                    (''provider'', Str ''provider-1'')]),
            (''timestamp'', Str ''2024-05-01T12:00:00.000Z'')])"
proof -
  let ?svc = "llm_services ''The build will probably pass.''"
  let ?body = "[(''repository'', Str ''octo/app''), (''branch'', Str ''main'')]"
  let ?reply = "[(''content'', Str ''The build will probably pass.''), (''model'', Str ''model-1''),
                    (''provider'', Str ''provider-1'')]"
  have 1: "?svc (GetRecentChanges (own ?body ''repository'') (own ?body ''commit_sha'')) = Inr (Obj ?reply)"
    by (simp add: llm_services_def)
  have 2: "?svc (GetBuildHistory (own ?body ''repository'') (own ?body ''branch'')) = Inr (Obj ?reply)"
    by (simp add: llm_services_def)
  have 3: "(if truthy (own_default ?body ''include_dependencies'' (Bool True))
          then ?svc (AnalyzeDependencies (own ?body ''repository'') (own ?body ''commit_sha''))
          else Inr Null) = Inr (Obj ?reply)"
    by (simp add: llm_services_def own_default_def own_def)
  have 4: "?svc (PredictBuildOutcome (Obj ?reply) (Obj ?reply) (Obj ?reply)
               (Obj [(''model'', own ?body ''llm_model'')])) = Inr (Obj ?reply)"
    by (simp add: llm_services_def)
  have 5: "JSON_parse example_runtime (own ?reply ''content'') =
             Inl (JsError ''Unexpected token in JSON at position 0'' [])"
    by (simp add: example_runtime_def example_parse_def own_def)
  have c: "double_round (7 / 10) = 3152519739159347 / 4503599627370496" by code_simp
  have o: "own ?body ''commit_sha'' = Undefined" "own ?body ''branch'' = Str ''main''"
    "own ?reply ''model'' = Str ''model-1''" "own ?reply ''provider'' = Str ''provider-1''"
    "toISOString_now example_runtime = ''2024-05-01T12:00:00.000Z''"
    by (simp_all add: own_def example_runtime_def)
  show ?thesis
    using C5_default_prediction [where svc = ?svc and body = ?body and rt = example_runtime, OF 1 2 3 4 5]
    unfolding c o .
qed

section \<open>The vulnerability scanner\<close>

lemma get_length_truthy:
  "truthy v \<Longrightarrow> \<exists>n. get rt v ''length'' = Inr n \<and> (\<forall>xs. v = Arr xs \<longrightarrow> n = Num (of_nat (length xs)))"
  by (cases v) (simp_all add: get_def)

lemma parse_vulnerabilities_length:
  assumes "parse_vulnerabilities rt va = Inr (v, r)"
  shows "\<exists>n. get rt v ''length'' = Inr n \<and> (\<forall>xs. v = Arr xs \<longrightarrow> n = Num (of_nat (length xs)))"
proof -
  have "truthy v"
    using assms unfolding parse_vulnerabilities_def bindE_def or_else_def
    by (auto split: sum.splits if_splits)
  then show ?thesis by (rule get_length_truthy)
qed

lemma vulnerability_scan_catch_status: "status_code (vulnerability_scan_catch e) \<noteq> 200"
  by (simp add: vulnerability_scan_catch_def)

lemma scan_total_issues:
  assumes "vulnerability_scan rt svc body = (res, calls)" and "status_code res = 200"
    and "field res ''vulnerabilities'' = Arr xs"
  shows "field res ''total_issues'' = Num (of_nat (length xs))"
proof -
  obtain r cs where b: "vulnerability_scan_body rt svc body = (r, cs)" by (cases "vulnerability_scan_body rt svc body")
  with assms obtain "r = Inr res"
    by (cases r) (auto simp: vulnerability_scan_def try_catch_def vulnerability_scan_catch_def)
  with b have ok: "vulnerability_scan_body rt svc body = (Inr res, cs)" by simp
  then obtain va v rl where pv: "parse_vulnerabilities rt va = Inr (v, rl)"
    and f: "field res ''vulnerabilities'' = v"
    and t: "Inr (field res ''total_issues'') = get rt v ''length''"
    unfolding vulnerability_scan_body_def Let_def io_defs
    by (auto simp: field_def own_def split: sum.splits prod.splits)
  from parse_vulnerabilities_length [OF pv] f t assms(3) show ?thesis by auto
qed

text \<open>
  C4. For every response object of the LLM collaborator whose content is a text that
  \<open>JSON.parse\<close> rejects, the scan answers with a 200 whose \<open>risk_level\<close> is \<open>high\<close> if the
  lowercased content contains \<open>critical\<close> or \<open>high risk\<close>, else \<open>medium\<close> if it contains
  \<open>medium\<close> or \<open>moderate\<close>, else \<open>low\<close>; the \<open>vulnerabilities\<close> list is empty and
  \<open>total_issues\<close> is 0. And in every successful scan, by whichever path, \<open>total_issues\<close> is
  the length of the returned \<open>vulnerabilities\<close> list.
\<close>

theorem C4_scan_fallback:
  "(svc (FetchRepositoryContent (own body ''repository'') (own_default body ''branch'' (Str ''main''))) = Inr repoContent \<and>
    svc (AnalyzeVulnerabilities repoContent (own_default body ''scan_type'' (Str ''comprehensive''))
           (Obj [(''model'', own body ''llm_model'')])) = Inr (Obj analysis) \<and>
    own analysis ''content'' = Str content \<and>
    JSON_parse rt (Str content) = Inl e \<longrightarrow>
    status_code (fst (vulnerability_scan rt svc body)) = 200 \<and>
    field (fst (vulnerability_scan rt svc body)) ''risk_level'' =
      Str (if str_includes (toLowerCase content) ''critical'' \<or> str_includes (toLowerCase content) ''high risk'' then ''high''
           else if str_includes (toLowerCase content) ''medium'' \<or> str_includes (toLowerCase content) ''moderate'' then ''medium''
           else ''low'') \<and>
    field (fst (vulnerability_scan rt svc body)) ''vulnerabilities'' = Arr [] \<and>
    field (fst (vulnerability_scan rt svc body)) ''total_issues'' = Num 0) \<and>
   (status_code (fst (vulnerability_scan rt svc body)) = 200 \<and>
    field (fst (vulnerability_scan rt svc body)) ''vulnerabilities'' = Arr xs \<longrightarrow>
    field (fst (vulnerability_scan rt svc body)) ''total_issues'' = Num (of_nat (length xs)))"
proof (intro conjI impI)
  assume a: "status_code (fst (vulnerability_scan rt svc body)) = 200 \<and>
    field (fst (vulnerability_scan rt svc body)) ''vulnerabilities'' = Arr xs"
  show "field (fst (vulnerability_scan rt svc body)) ''total_issues'' = Num (of_nat (length xs))"
    using scan_total_issues [of rt svc body "fst (vulnerability_scan rt svc body)" "snd (vulnerability_scan rt svc body)" xs] a
    by simp
next
  assume a: "svc (FetchRepositoryContent (own body ''repository'') (own_default body ''branch'' (Str ''main''))) = Inr repoContent \<and>
    svc (AnalyzeVulnerabilities repoContent (own_default body ''scan_type'' (Str ''comprehensive''))
           (Obj [(''model'', own body ''llm_model'')])) = Inr (Obj analysis) \<and>
    own analysis ''content'' = Str content \<and>
    JSON_parse rt (Str content) = Inl e"
  have pv: "parse_vulnerabilities rt (Obj analysis) = Inr (Arr [], Str (fallback_risk (toLowerCase content)))"
    using a by (simp add: parse_vulnerabilities_def get_def bindE_def str_method_def)
  have run: "fst (vulnerability_scan rt svc body) = Response 200 (Obj
           [(''repository'', own body ''repository''),
            (''branch'', own_default body ''branch'' (Str ''main'')),
            (''scan_type'', own_default body ''scan_type'' (Str ''comprehensive'')),
            (''risk_level'', Str (fallback_risk (toLowerCase content))),
            (''vulnerabilities'', Arr []),
            (''total_issues'', Num 0),
            (''model_used'', own analysis ''model''),
            (''provider'', own analysis ''provider''),
            (''timestamp'', Str (toISOString_now rt))])"
    using a unfolding vulnerability_scan_def vulnerability_scan_body_def Let_def
    by (simp add: io_defs pv get_def)
  show "status_code (fst (vulnerability_scan rt svc body)) = 200" by (simp add: run)
  show "field (fst (vulnerability_scan rt svc body)) ''risk_level'' =
      Str (if str_includes (toLowerCase content) ''critical'' \<or> str_includes (toLowerCase content) ''high risk'' then ''high''
           else if str_includes (toLowerCase content) ''medium'' \<or> str_includes (toLowerCase content) ''moderate'' then ''medium''
           else ''low'')"
    by (simp add: run field_def own_def fallback_risk_def)
  show "field (fst (vulnerability_scan rt svc body)) ''vulnerabilities'' = Arr []"
    by (simp add: run field_def own_def)
  show "field (fst (vulnerability_scan rt svc body)) ''total_issues'' = Num 0"
    by (simp add: run field_def own_def)
qed


text \<open>
  The fallback on the text \<open>Critical issue found\<close>, and a parsed payload with two
  findings.
\<close>

theorem C4_scan_fallback_witness:
  "status_code (fst (vulnerability_scan example_runtime (llm_services ''Critical issue found'')
      [(''repository'', Str ''octo/app'')])) = 200 \<and>
   field (fst (vulnerability_scan example_runtime (llm_services ''Critical issue found'')
      [(''repository'', Str ''octo/app'')])) ''risk_level'' = Str ''high'' \<and>
   field (fst (vulnerability_scan example_runtime (llm_services ''Critical issue found'')
      [(''repository'', Str ''octo/app'')])) ''vulnerabilities'' = Arr [] \<and>
   field (fst (vulnerability_scan example_runtime (llm_services ''Critical issue found'')
      [(''repository'', Str ''octo/app'')])) ''total_issues'' = Num 0 \<and>
   field (fst (vulnerability_scan
      (example_runtime\<lparr>JSON_parse := (\<lambda>v. Inr (Obj [(''vulnerabilities'', Arr [Str ''a'', Str ''b''])]))\<rparr>)
      (llm_services ''two findings'') [])) ''vulnerabilities'' = Arr [Str ''a'', Str ''b''] \<and>
   field (fst (vulnerability_scan
      (example_runtime\<lparr>JSON_parse := (\<lambda>v. Inr (Obj [(''vulnerabilities'', Arr [Str ''a'', Str ''b''])]))\<rparr>)
      (llm_services ''two findings'') [])) ''total_issues'' = Num 2"
proof -
  let ?svc = "llm_services ''Critical issue found''"
  let ?body = "[(''repository'', Str ''octo/app'')]"
  let ?reply = "[(''content'', Str ''Critical issue found''), (''model'', Str ''model-1''),
                 (''provider'', Str ''provider-1'')]"
  have 1: "?svc (FetchRepositoryContent (own ?body ''repository'') (own_default ?body ''branch'' (Str ''main'')))
             = Inr (Obj ?reply)"
    by (simp add: llm_services_def)
  have 2: "?svc (AnalyzeVulnerabilities (Obj ?reply) (own_default ?body ''scan_type'' (Str ''comprehensive''))
             (Obj [(''model'', own ?body ''llm_model'')])) = Inr (Obj ?reply)"
    by (simp add: llm_services_def)
  have 3: "own ?reply ''content'' = Str ''Critical issue found''" by (simp add: own_def)
  have 4: "JSON_parse example_runtime (Str ''Critical issue found'') =
             Inl (JsError ''Unexpected token in JSON at position 0'' [])"
    by (simp add: example_runtime_def example_parse_def)
  have crit: "str_includes (toLowerCase ''Critical issue found'') ''critical''" by code_simp
  from C4_scan_fallback [where svc = ?svc and body = ?body and rt = example_runtime
      and repoContent = "Obj ?reply" and analysis = ?reply and content = "''Critical issue found''"
      and e = "JsError ''Unexpected token in JSON at position 0'' []" and xs = "[]",
      THEN conjunct1, rule_format, OF conjI [OF 1 conjI [OF 2 conjI [OF 3 4]]]]
  have fallback:
    "status_code (fst (vulnerability_scan example_runtime ?svc ?body)) = 200 \<and>
     field (fst (vulnerability_scan example_runtime ?svc ?body)) ''risk_level'' = Str ''high'' \<and>
     field (fst (vulnerability_scan example_runtime ?svc ?body)) ''vulnerabilities'' = Arr [] \<and>
     field (fst (vulnerability_scan example_runtime ?svc ?body)) ''total_issues'' = Num 0"
    by (simp only: crit simp_thms if_True)
  let ?rt = "example_runtime\<lparr>JSON_parse := (\<lambda>v. Inr (Obj [(''vulnerabilities'', Arr [Str ''a'', Str ''b''])]))\<rparr>"
  let ?res = "fst (vulnerability_scan ?rt (llm_services ''two findings'') [])"
  have run: "?res = Response 200 (Obj
           [(''repository'', Undefined),
            (''branch'', Str ''main''),
            (''scan_type'', Str ''comprehensive''),
            (''risk_level'', Str ''low''),
            (''vulnerabilities'', Arr [Str ''a'', Str ''b'']),
            (''total_issues'', Num 2),
            (''model_used'', Str ''model-1''),
            (''provider'', Str ''provider-1''),
            (''timestamp'', Str ''2024-05-01T12:00:00.000Z'')])"
    by (simp add: vulnerability_scan_def vulnerability_scan_body_def parse_vulnerabilities_def
          Let_def io_defs get_def own_def own_default_def or_else_def llm_services_def example_runtime_def)
  have st: "status_code ?res = 200" by (simp only: run response.sel)
  have v: "field ?res ''vulnerabilities'' = Arr [Str ''a'', Str ''b'']"
    by (simp add: run field_def own_def)
  from C4_scan_fallback [where rt = ?rt and svc = "llm_services ''two findings''" and body = "[]"
      and xs = "[Str ''a'', Str ''b'']", THEN conjunct2, rule_format, OF conjI [OF st v]]
  have parsed: "field ?res ''total_issues'' = Num 2" by simp
  from fallback v parsed show ?thesis by (intro conjI) (simp_all only: simp_thms)
qed

section \<open>The monitor\<close>

text \<open>
  C8, as amended. For every monitor request whose \<open>deployment_id\<close> and
  \<open>monitoring_duration\<close> convert to text, and every result of the random source: the
  response is the 200 record; \<open>cpu_usage\<close> is the first random number times 100 and
  \<open>error_rate\<close> the fourth times 5, which for a random number in \<open>[0, 1)\<close> lie in
  \<open>[0, 100)\<close> and \<open>[0, 5)\<close>; the alerts list contains \<open>High CPU usage detected\<close> exactly
  when \<open>cpu_usage > 80\<close> and \<open>Elevated error rate detected\<close> exactly when
  \<open>error_rate > 3\<close>; it contains nothing else, and is empty when neither threshold is
  passed. (How the random source distributes its results is not part of the model: the
  statement holds for each of them.)
\<close>

theorem C8_monitor_alerts:
  assumes "ToString rt (own body ''deployment_id'') = Inr id_text"
    and "ToString rt (own_default body ''monitoring_duration'' (Num 300)) = Inr duration_text"
  shows
  "(is_double (Math_random rt 0) \<and> 0 \<le> Math_random rt 0 \<and> Math_random rt 0 < 1 \<longrightarrow>
      0 \<le> js_mul (Math_random rt 0) 100 \<and> js_mul (Math_random rt 0) 100 < 100) \<and>
   (is_double (Math_random rt 3) \<and> 0 \<le> Math_random rt 3 \<and> Math_random rt 3 < 1 \<longrightarrow>
      0 \<le> js_mul (Math_random rt 3) 5 \<and> js_mul (Math_random rt 3) 5 < 5) \<and>
   status_code (monitor rt body) = 200 \<and>
   metric (monitor rt body) ''cpu_usage'' = Num (js_mul (Math_random rt 0) 100) \<and>
   metric (monitor rt body) ''error_rate'' = Num (js_mul (Math_random rt 3) 5) \<and>
   (\<exists>alerts.
      field (monitor rt body) ''alerts'' = Arr alerts \<and>
      (Str ''High CPU usage detected'' \<in> set alerts \<longleftrightarrow> 80 < js_mul (Math_random rt 0) 100) \<and>
      (Str ''Elevated error rate detected'' \<in> set alerts \<longleftrightarrow> 3 < js_mul (Math_random rt 3) 5) \<and>
      set alerts \<subseteq> {Str ''High CPU usage detected'', Str ''Elevated error rate detected''} \<and>
      (\<not> 80 < js_mul (Math_random rt 0) 100 \<and> \<not> 3 < js_mul (Math_random rt 3) 5 \<longrightarrow> alerts = []))"
proof -
  define cpu where "cpu = js_mul (Math_random rt 0) 100"
  define err where "err = js_mul (Math_random rt 3) 5"
  define alerts where "alerts =
     (if 80 < cpu then [Str ''High CPU usage detected''] else [])
     @ (if 3 < err then [Str ''Elevated error rate detected''] else [])"
  have res: "monitor rt body = Response 200 (Obj
           [(''deployment_id'', own body ''deployment_id''),
            (''environment'', own body ''environment''),
            (''status'', Str ''healthy''),
            (''metrics'', Obj
               [(''cpu_usage'', Num cpu),
                (''memory_usage'', Num (js_mul (Math_random rt 1) 100)),
                (''response_time'', Num (js_mul (Math_random rt 2) 1000)),
                (''error_rate'', Num err)]),
            (''dashboard_url'', Str (''https://monitoring.example.com/dashboard/'' @ id_text)),
            (''alerts'', Arr alerts),
            (''monitoring_duration'', Str (duration_text @ ''s'')),
            (''timestamp'', Str (toISOString_now rt))])"
    using assms by (simp add: monitor_def monitor_body_def Let_def bindE_def cpu_def err_def alerts_def)
  have 1: "status_code (monitor rt body) = 200" by (simp add: res)
  have 2: "metric (monitor rt body) ''cpu_usage'' = Num cpu"
    by (simp add: res metric_def field_def own_def)
  have 3: "metric (monitor rt body) ''error_rate'' = Num err"
    by (simp add: res metric_def field_def own_def)
  have 4: "field (monitor rt body) ''alerts'' = Arr alerts"
    by (simp add: res field_def own_def)
  have 5: "is_double (Math_random rt 0) \<and> 0 \<le> Math_random rt 0 \<and> Math_random rt 0 < 1 \<longrightarrow> 0 \<le> cpu \<and> cpu < 100"
    unfolding cpu_def using random_times_100 by blast
  have 6: "is_double (Math_random rt 3) \<and> 0 \<le> Math_random rt 3 \<and> Math_random rt 3 < 1 \<longrightarrow> 0 \<le> err \<and> err < 5"
    unfolding err_def using random_times_5 by blast
  have 7: "Str ''High CPU usage detected'' \<in> set alerts \<longleftrightarrow> 80 < cpu"
    by (simp add: alerts_def)
  have 8: "Str ''Elevated error rate detected'' \<in> set alerts \<longleftrightarrow> 3 < err"
    by (simp add: alerts_def)
  have 9: "set alerts \<subseteq> {Str ''High CPU usage detected'', Str ''Elevated error rate detected''}"
    by (cases "80 < cpu"; cases "3 < err") (simp_all add: alerts_def)
  have 10: "\<not> 80 < cpu \<and> \<not> 3 < err \<longrightarrow> alerts = []"
    by (simp add: alerts_def)
  have "\<exists>alerts.
      field (monitor rt body) ''alerts'' = Arr alerts \<and>
      (Str ''High CPU usage detected'' \<in> set alerts \<longleftrightarrow> 80 < cpu) \<and>
      (Str ''Elevated error rate detected'' \<in> set alerts \<longleftrightarrow> 3 < err) \<and>
      set alerts \<subseteq> {Str ''High CPU usage detected'', Str ''Elevated error rate detected''} \<and>
      (\<not> 80 < cpu \<and> \<not> 3 < err \<longrightarrow> alerts = [])"
    by (rule exI [of _ alerts]) (intro conjI 4 7 8 9 10)
  with 1 2 3 5 6 show ?thesis unfolding cpu_def err_def by (intro conjI)
qed


text \<open>
  The empty request with all random numbers seven eighths: both metrics are above their
  thresholds and within range.
\<close>

theorem C8_monitor_alerts_witness:
  "ToString (example_runtime\<lparr>Math_random := (\<lambda>i. 7 / 8)\<rparr>) (own [] ''deployment_id'') = Inr ''undefined'' \<and>
   ToString (example_runtime\<lparr>Math_random := (\<lambda>i. 7 / 8)\<rparr>)
     (own_default [] ''monitoring_duration'' (Num 300)) = Inr ''300'' \<and>
   is_double (7 / 8) \<and> (0 :: rat) \<le> 7 / 8 \<and> (7 / 8 :: rat) < 1 \<and>
   status_code (monitor (example_runtime\<lparr>Math_random := (\<lambda>i. 7 / 8)\<rparr>) []) = 200 \<and>
   metric (monitor (example_runtime\<lparr>Math_random := (\<lambda>i. 7 / 8)\<rparr>) []) ''cpu_usage'' = Num (175 / 2) \<and>
   (0 :: rat) \<le> 175 / 2 \<and> (175 / 2 :: rat) < 100 \<and>
   metric (monitor (example_runtime\<lparr>Math_random := (\<lambda>i. 7 / 8)\<rparr>) []) ''error_rate'' = Num (35 / 8) \<and>
   (0 :: rat) \<le> 35 / 8 \<and> (35 / 8 :: rat) < 5 \<and>
   field (monitor (example_runtime\<lparr>Math_random := (\<lambda>i. 7 / 8)\<rparr>) []) ''alerts'' =
     Arr [Str ''High CPU usage detected'', Str ''Elevated error rate detected'']"
proof -
  let ?rt = "example_runtime\<lparr>Math_random := (\<lambda>i. 7 / 8)\<rparr>"
  have id: "ToString ?rt (own [] ''deployment_id'') = Inr ''undefined''" by (simp add: own_def)
  have three: "digits 300 = ''300''" by code_simp
  have dur: "ToString ?rt (own_default [] ''monitoring_duration'' (Num 300)) = Inr ''300''"
    by (simp add: own_default_def own_def three)
  have d: "is_double (7 / 8)" by code_simp
  have r: "Math_random ?rt 0 = 7 / 8" "Math_random ?rt 3 = 7 / 8" by simp_all
  have cpu: "js_mul (7 / 8) 100 = 175 / 2" by code_simp
  have err: "js_mul (7 / 8) 5 = 35 / 8" by code_simp
  note inst = C8_monitor_alerts [OF id dur, unfolded r cpu err]
  have range: "(0 :: rat) \<le> 175 / 2 \<and> (175 / 2 :: rat) < 100" "(0 :: rat) \<le> 35 / 8 \<and> (35 / 8 :: rat) < 5"
    using inst d by simp_all
  have st: "status_code (monitor ?rt []) = 200" using inst by simp
  have metrics: "metric (monitor ?rt []) ''cpu_usage'' = Num (175 / 2)"
    "metric (monitor ?rt []) ''error_rate'' = Num (35 / 8)"
    using inst by simp_all
  have alerts: "field (monitor ?rt []) ''alerts'' =
     Arr [Str ''High CPU usage detected'', Str ''Elevated error rate detected'']"
    using id dur by (simp add: monitor_def monitor_body_def Let_def bindE_def field_def own_def cpu err)
  from id dur d range st metrics alerts show ?thesis by simp
qed

text \<open>
  C8 as stated fails on a request whose \<open>deployment_id\<close> is an object with a \<open>toString\<close>
  property: the dashboard address cannot be built, the handler's \<open>catch\<close> answers with a
  500, and the response has no alerts although the CPU sample is above 80.
\<close>

theorem C8_monitor_alerts_counterexample:
  "is_double (7 / 8) \<and> (0 :: rat) \<le> 7 / 8 \<and> (7 / 8 :: rat) < 1 \<and>
   (80 :: rat) < js_mul (7 / 8) 100 \<and>
   monitor (example_runtime\<lparr>Math_random := (\<lambda>i. 7 / 8)\<rparr>)
     [(''deployment_id'', Obj [(''toString'', Num 0)])] =
     Response 500 (Obj
       [(''error'', Str ''Monitoring failed''),
        (''message'', Str ''Cannot convert object to primitive value'')]) \<and>
   field (monitor (example_runtime\<lparr>Math_random := (\<lambda>i. 7 / 8)\<rparr>)
     [(''deployment_id'', Obj [(''toString'', Num 0)])]) ''alerts'' = Undefined"
  by code_simp


section \<open>The test writer\<close>

lemma test_writer_catch_status: "status_code (test_writer_catch e) \<noteq> 200"
  by (simp add: test_writer_catch_def)

lemma test_writer_body_200:
  assumes "test_writer_body rt svc body = (Inr res, cs)" and "status_code res = 200"
  shows "field res ''coverage_estimate'' = Num (coverage_estimate rt)"
  using assms unfolding test_writer_body_def Let_def io_defs
  by (auto simp: field_def own_def split: if_splits sum.splits prod.splits)

text \<open>
  C9, as amended. For every successful test-writer request and every value of the random
  source in \<open>[0, 1)\<close>, the returned \<open>coverage_estimate\<close> is at least 85 and at most 95.
\<close>

theorem C9_coverage_estimate:
  assumes "test_writer rt svc body = (res, calls)" and "status_code res = 200"
    and "0 \<le> Math_random rt 0" and "Math_random rt 0 < 1"
  shows "\<exists>c. field res ''coverage_estimate'' = Num c \<and> 85 \<le> c \<and> c \<le> 95"
proof -
  obtain r cs where b: "test_writer_body rt svc body = (r, cs)"
    by (cases "test_writer_body rt svc body")
  with assms(1,2) have "r = Inr res"
    by (cases r) (auto simp: test_writer_def try_catch_def test_writer_catch_status)
  with b have "test_writer_body rt svc body = (Inr res, cs)" by simp
  then have "field res ''coverage_estimate'' = Num (coverage_estimate rt)"
    using assms(2) by (rule test_writer_body_200)
  with coverage_estimate_range [OF assms(3)] show ?thesis by simp
qed

lemma test_writer_run:
  "test_writer (example_runtime\<lparr>Math_random := r\<rparr>) no_files_services
       [(''repository'', Str ''octo/app''), (''pr_number'', Num 7)] =
   (Response 200 (Obj
      [(''tests_generated'', Num 0),
       (''test_files'', Arr []),
       (''coverage_estimate'', Num (coverage_estimate (example_runtime\<lparr>Math_random := r\<rparr>))),
       (''timestamp'', Str ''2024-05-01T12:00:00.000Z'')]),
    [FetchChangedFiles (Str ''octo/app'') (Num 7) Undefined])"
  by (simp add: test_writer_def test_writer_body_def Let_def io_defs own_def no_files_services_def
        iterate_def example_runtime_def)

text \<open>The random number one half gives the estimate 90.\<close>

theorem C9_coverage_estimate_witness:
  "(0 :: rat) \<le> 1 / 2 \<and> (1 / 2 :: rat) < 1 \<and>
   field (fst (test_writer example_runtime no_files_services
             [(''repository'', Str ''octo/app''), (''pr_number'', Num 7)])) ''coverage_estimate'' = Num 90 \<and>
   (85 :: rat) \<le> 90 \<and> (90 :: rat) \<le> 95"
proof -
  let ?run = "test_writer example_runtime no_files_services
             [(''repository'', Str ''octo/app''), (''pr_number'', Num 7)]"
  have same: "example_runtime\<lparr>Math_random := Math_random example_runtime\<rparr> = example_runtime" by simp
  have run: "fst ?run = Response 200 (Obj
      [(''tests_generated'', Num 0),
       (''test_files'', Arr []),
       (''coverage_estimate'', Num (coverage_estimate example_runtime)),
       (''timestamp'', Str ''2024-05-01T12:00:00.000Z'')])"
    using test_writer_run [of "Math_random example_runtime"] unfolding same by simp
  have st: "status_code (fst ?run) = 200" by (simp only: run response.sel)
  have half: "Math_random example_runtime 0 = 1 / 2" by (simp add: example_runtime_def)
  have lo: "0 \<le> Math_random example_runtime 0" and hi: "Math_random example_runtime 0 < 1"
    by (simp_all add: half)
  have ninety: "coverage_estimate example_runtime = 90" by code_simp
  have est: "field (fst ?run) ''coverage_estimate'' = Num 90"
    by (simp add: run field_def own_def ninety)
  from C9_coverage_estimate [OF surjective_pairing st lo hi]
  obtain c where "field (fst ?run) ''coverage_estimate'' = Num c \<and> 85 \<le> c \<and> c \<le> 95" ..
  with est have "(85 :: rat) \<le> 90 \<and> (90 :: rat) \<le> 95" by simp
  with est show ?thesis by simp
qed

text \<open>
  C9 as stated fails at the largest double below one: ten times it rounds to
  \<open>10 - 2^(-49)\<close>, the sum with 85 rounds up to 95, and \<open>Math.min\<close> leaves 95, which is not
  strictly less than 95.
\<close>

theorem C9_coverage_estimate_counterexample:
  "is_double (1 - 1 / 2 ^ 53) \<and> (0 :: rat) \<le> 1 - 1 / 2 ^ 53 \<and> (1 - 1 / 2 ^ 53 :: rat) < 1 \<and>
   test_writer (example_runtime\<lparr>Math_random := (\<lambda>i. 1 - 1 / 2 ^ 53)\<rparr>) no_files_services
       [(''repository'', Str ''octo/app''), (''pr_number'', Num 7)] =
   (Response 200 (Obj
      [(''tests_generated'', Num 0),
       (''test_files'', Arr []),
       (''coverage_estimate'', Num 95),
       (''timestamp'', Str ''2024-05-01T12:00:00.000Z'')]),
    [FetchChangedFiles (Str ''octo/app'') (Num 7) Undefined]) \<and>
   \<not> (95 :: rat) < 95"
proof -
  have d: "is_double (1 - 1 / 2 ^ 53)" by code_simp
  have c: "coverage_estimate (example_runtime\<lparr>Math_random := (\<lambda>i. 1 - 1 / 2 ^ 53)\<rparr>) = 95"
    by code_simp
  show ?thesis using d test_writer_run [of "\<lambda>i. 1 - 1 / 2 ^ 53"] unfolding c by simp
qed


end
